theory Spec2Isabelle
  imports Main "HOL-Library.Word"
begin

unbundle bit_operations_syntax

section \<open>AviReader8.cpp: the AVI (Video for Windows) input plugin\<close>

text \<open>
  The plugin is glue between the host's plugin table and the AVIFile service of the
  operating system. The embedding below keeps the source's names. Everything the code
  obtains from outside (the allocator and the AVIFile service) is a field of the record
  \<open>service\<close>, so that every theorem holds for whatever the allocator and the service
  answer; every call the code makes is appended to a trace, in call order.
\<close>

subsection \<open>Data\<close>

text \<open>
  A pointer or interface handle is \<open>None\<close> when it is NULL and \<open>Some a\<close> otherwise.
  \<open>int\<close>, \<open>LONG\<close> and \<open>DWORD\<close> are 32 bits wide, \<open>WORD\<close> 16 bits.
\<close>

type_synonym ptr = "nat option"
type_synonym DWORD = "32 word"
type_synonym LONG = "32 word"
type_synonym cint = "32 word"
type_synonym byte = "8 word"

text \<open>The fields of the Windows structures that the source reads.\<close>

record AVIFILEINFO =
  dwStreams :: DWORD

record AVISTREAMINFO =
  fccType :: DWORD
  dwScale :: DWORD
  dwRate :: DWORD
  dwLength :: DWORD

text \<open>vfw.h: \<open>mmioFOURCC('v','i','d','s')\<close> and \<open>mmioFOURCC('a','u','d','s')\<close>.\<close>

definition streamtypeVIDEO :: DWORD where
  "streamtypeVIDEO = 0x73646976"

definition streamtypeAUDIO :: DWORD where
  "streamtypeAUDIO = 0x73647561"

text \<open>\<open>struct FILE_HANDLE\<close>, lines 38 to 50.\<close>

record FILE_HANDLE =
  flag :: cint
  pfile :: ptr
  pvideo :: ptr
  paudio :: ptr
  fileinfo :: AVIFILEINFO
  videoinfo :: AVISTREAMINFO
  audioinfo :: AVISTREAMINFO
  videoformat :: ptr
  videoformatsize :: LONG
  audioformat :: ptr
  audioformatsize :: LONG

definition FLAG_VIDEO :: cint where
  "FLAG_VIDEO = 1"

definition FLAG_AUDIO :: cint where
  "FLAG_AUDIO = 2"

text \<open>What \<open>ZeroMemory(fp, sizeof(FILE_HANDLE))\<close> leaves in the record.\<close>

definition zero_AVISTREAMINFO :: AVISTREAMINFO where
  "zero_AVISTREAMINFO = \<lparr>fccType = 0, dwScale = 0, dwRate = 0, dwLength = 0\<rparr>"

definition zero_FILE_HANDLE :: FILE_HANDLE where
  "zero_FILE_HANDLE =
     \<lparr>flag = 0, pfile = None, pvideo = None, paudio = None,
      fileinfo = \<lparr>dwStreams = 0\<rparr>,
      videoinfo = zero_AVISTREAMINFO, audioinfo = zero_AVISTREAMINFO,
      videoformat = None, videoformatsize = 0,
      audioformat = None, audioformatsize = 0\<rparr>"

subsection \<open>The allocator, the AVIFile service and the trace of calls\<close>

datatype alloc_req = Sizeof_FILE_HANDLE | Size_LONG LONG

datatype event =
    EvGlobalAlloc alloc_req ptr
  | EvGlobalFree ptr
  | EvAVIFileOpen string ptr
  | EvAVIFileInfo ptr
  | EvAVIFileGetStream ptr DWORD ptr
  | EvAVIStreamInfo ptr
  | EvAVIStreamFormatSize ptr
  | EvAVIStreamReadFormat ptr ptr LONG
  | EvAVIStreamRelease ptr
  | EvAVIFileRelease ptr
  | EvAVIStreamRead ptr LONG LONG ptr LONG

text \<open>
  The answers of the outside world.
  \<^item> \<open>GlobalAlloc_result k req\<close>: what the \<open>k\<close>-th call of GlobalAlloc returns (NULL on failure).
  \<^item> \<open>AVIFileOpen_result\<close>, \<open>AVIFileInfo_result\<close>, \<open>AVIFileGetStream_result\<close>: \<open>Some\<close> is
    \<open>S_OK\<close> with the value written through the out-parameter, \<open>None\<close> any other result.
  \<^item> \<open>AVIStreamInfo_result\<close>: the contents of \<open>asi\<close> after the call (the source ignores
    the result code).
  \<^item> \<open>AVIStreamFormatSize_result\<close>: \<open>Some n\<close> when the call stores \<open>n\<close> through its
    out-parameter, \<open>None\<close> when it leaves it as it was (result code ignored).
  \<^item> \<open>AVIStreamReadFormat_result h buf n\<close>: \<open>Some (bytes, n')\<close> when the call fills the
    buffer with \<open>bytes\<close> and stores \<open>n'\<close> as the size, \<open>None\<close> when it changes nothing
    (result code ignored).
  \<^item> \<open>AVIStreamRead_result h start samples buf cb\<close>: \<open>Some (bytes, n, data)\<close> is \<open>S_OK\<close>
    with \<open>bytes\<close> the value for \<open>*plBytes\<close>, \<open>n\<close> the value for \<open>*plSamples\<close> and \<open>data\<close>
    what is written to a non-null buffer; \<open>None\<close> is any other result.
\<close>

record service =
  GlobalAlloc_result :: "nat \<Rightarrow> alloc_req \<Rightarrow> ptr"
  AVIFileOpen_result :: "string \<Rightarrow> ptr"
  AVIFileInfo_result :: "ptr \<Rightarrow> AVIFILEINFO option"
  AVIFileGetStream_result :: "ptr \<Rightarrow> DWORD \<Rightarrow> ptr"
  AVIStreamInfo_result :: "ptr \<Rightarrow> AVISTREAMINFO"
  AVIStreamFormatSize_result :: "ptr \<Rightarrow> LONG option"
  AVIStreamReadFormat_result :: "ptr \<Rightarrow> ptr \<Rightarrow> LONG \<Rightarrow> (byte list \<times> LONG) option"
  AVIStreamRead_result :: "ptr \<Rightarrow> LONG \<Rightarrow> LONG \<Rightarrow> ptr \<Rightarrow> LONG \<Rightarrow> (LONG \<times> LONG \<times> byte list) option"

text \<open>
  The state: the FILE_HANDLE records that exist (by address), the byte buffers whose
  contents are defined (by address: a block that was allocated and never written, or
  that was freed, has no entry), the number of GlobalAlloc calls so far, and the trace.
\<close>

record world =
  sessions :: "nat \<rightharpoonup> FILE_HANDLE"
  mem :: "nat \<rightharpoonup> byte list"
  nalloc :: nat
  trace :: "event list"

definition emit :: "event \<Rightarrow> world \<Rightarrow> world" where
  "emit e w = w\<lparr>trace := trace w @ [e]\<rparr>"

definition GlobalAlloc :: "service \<Rightarrow> alloc_req \<Rightarrow> world \<Rightarrow> ptr \<times> world" where
  "GlobalAlloc S req w =
     (let p = GlobalAlloc_result S (nalloc w) req
      in (p, emit (EvGlobalAlloc req p) (w\<lparr>nalloc := Suc (nalloc w)\<rparr>)))"

definition GlobalFree :: "ptr \<Rightarrow> world \<Rightarrow> world" where
  "GlobalFree p w =
     (case p of
        None \<Rightarrow> emit (EvGlobalFree None) w
      | Some a \<Rightarrow> emit (EvGlobalFree (Some a))
          (w\<lparr>sessions := (sessions w)(a := None), mem := (mem w)(a := None)\<rparr>))"

definition AVIFileOpen :: "service \<Rightarrow> string \<Rightarrow> world \<Rightarrow> ptr \<times> world" where
  "AVIFileOpen S file w =
     (let r = AVIFileOpen_result S file in (r, emit (EvAVIFileOpen file r) w))"

definition AVIFileInfo :: "service \<Rightarrow> ptr \<Rightarrow> world \<Rightarrow> AVIFILEINFO option \<times> world" where
  "AVIFileInfo S pf w = (AVIFileInfo_result S pf, emit (EvAVIFileInfo pf) w)"

definition AVIFileGetStream :: "service \<Rightarrow> ptr \<Rightarrow> DWORD \<Rightarrow> world \<Rightarrow> ptr \<times> world" where
  "AVIFileGetStream S pf i w =
     (let r = AVIFileGetStream_result S pf i in (r, emit (EvAVIFileGetStream pf i r) w))"

definition AVIStreamInfo :: "service \<Rightarrow> ptr \<Rightarrow> world \<Rightarrow> AVISTREAMINFO \<times> world" where
  "AVIStreamInfo S pas w = (AVIStreamInfo_result S pas, emit (EvAVIStreamInfo pas) w)"

text \<open>The third argument is the current value of the variable the call writes to.\<close>

definition AVIStreamFormatSize :: "service \<Rightarrow> ptr \<Rightarrow> LONG \<Rightarrow> world \<Rightarrow> LONG \<times> world" where
  "AVIStreamFormatSize S pas cur w =
     ((case AVIStreamFormatSize_result S pas of None \<Rightarrow> cur | Some n \<Rightarrow> n),
      emit (EvAVIStreamFormatSize pas) w)"

definition AVIStreamReadFormat :: "service \<Rightarrow> ptr \<Rightarrow> ptr \<Rightarrow> LONG \<Rightarrow> world \<Rightarrow> LONG \<times> world" where
  "AVIStreamReadFormat S pas buf cur w =
     (let w1 = emit (EvAVIStreamReadFormat pas buf cur) w
      in case AVIStreamReadFormat_result S pas buf cur of
           None \<Rightarrow> (cur, w1)
         | Some (bytes, n) \<Rightarrow>
             (n, case buf of None \<Rightarrow> w1 | Some a \<Rightarrow> w1\<lparr>mem := (mem w1)(a \<mapsto> bytes)\<rparr>))"

definition AVIStreamRelease :: "ptr \<Rightarrow> world \<Rightarrow> world" where
  "AVIStreamRelease pas w = emit (EvAVIStreamRelease pas) w"

definition AVIFileRelease :: "ptr \<Rightarrow> world \<Rightarrow> world" where
  "AVIFileRelease pf w = emit (EvAVIFileRelease pf) w"

text \<open>
  \<open>AVIStreamRead\<close>: \<open>None\<close> when the result is not \<open>S_OK\<close>, else the pair of the values
  for \<open>*plBytes\<close> and \<open>*plSamples\<close>; the caller keeps the one it passed a variable for.
\<close>

definition AVIStreamRead ::
  "service \<Rightarrow> ptr \<Rightarrow> LONG \<Rightarrow> LONG \<Rightarrow> ptr \<Rightarrow> LONG \<Rightarrow> world \<Rightarrow> (LONG \<times> LONG) option \<times> world" where
  "AVIStreamRead S pas start samples buf cb w =
     (let w1 = emit (EvAVIStreamRead pas start samples buf cb) w
      in case AVIStreamRead_result S pas start samples buf cb of
           None \<Rightarrow> (None, w1)
         | Some (bytes, n, data) \<Rightarrow>
             (Some (bytes, n),
              case buf of None \<Rightarrow> w1 | Some a \<Rightarrow> w1\<lparr>mem := (mem w1)(a \<mapsto> data)\<rparr>))"

subsection \<open>func_open, lines 93 to 141\<close>

text \<open>The two stream set-ups of the loop body, lines 110 to 120 and 122 to 132.\<close>

definition setup_video :: "service \<Rightarrow> nat \<Rightarrow> AVISTREAMINFO \<Rightarrow> FILE_HANDLE \<times> world \<Rightarrow> FILE_HANDLE \<times> world" where
  "setup_video S pas asi fw =
     (case fw of (fp, w) \<Rightarrow>
        let fp = fp\<lparr>pvideo := Some pas\<rparr>;
            fp = fp\<lparr>videoinfo := asi\<rparr>
        in case AVIStreamFormatSize S (pvideo fp) (videoformatsize fp) w of (n, w) \<Rightarrow>
        let fp = fp\<lparr>videoformatsize := n\<rparr>
        in case GlobalAlloc S (Size_LONG (videoformatsize fp)) w of (p, w) \<Rightarrow>
        let fp = fp\<lparr>videoformat := p\<rparr>
        in if videoformat fp \<noteq> None then
             (case AVIStreamReadFormat S (pvideo fp) (videoformat fp) (videoformatsize fp) w of
                (n, w) \<Rightarrow> (fp\<lparr>videoformatsize := n, flag := flag fp OR FLAG_VIDEO\<rparr>, w))
           else (fp, AVIStreamRelease (Some pas) w))"

definition setup_audio :: "service \<Rightarrow> nat \<Rightarrow> AVISTREAMINFO \<Rightarrow> FILE_HANDLE \<times> world \<Rightarrow> FILE_HANDLE \<times> world" where
  "setup_audio S pas asi fw =
     (case fw of (fp, w) \<Rightarrow>
        let fp = fp\<lparr>paudio := Some pas\<rparr>;
            fp = fp\<lparr>audioinfo := asi\<rparr>
        in case AVIStreamFormatSize S (paudio fp) (audioformatsize fp) w of (n, w) \<Rightarrow>
        let fp = fp\<lparr>audioformatsize := n\<rparr>
        in case GlobalAlloc S (Size_LONG (audioformatsize fp)) w of (p, w) \<Rightarrow>
        let fp = fp\<lparr>audioformat := p\<rparr>
        in if videoformat fp \<noteq> None then
             (case AVIStreamReadFormat S (paudio fp) (audioformat fp) (audioformatsize fp) w of
                (n, w) \<Rightarrow> (fp\<lparr>audioformatsize := n, flag := flag fp OR FLAG_AUDIO\<rparr>, w))
           else (fp, AVIStreamRelease (Some pas) w))"

text \<open>The body of the loop over the streams, lines 105 to 136, for the index \<open>i\<close>.\<close>

definition open_stream :: "service \<Rightarrow> DWORD \<Rightarrow> FILE_HANDLE \<times> world \<Rightarrow> FILE_HANDLE \<times> world" where
  "open_stream S i fw =
     (case fw of (fp, w) \<Rightarrow>
        (case AVIFileGetStream S (pfile fp) i w of
           (None, w) \<Rightarrow> (fp, w)
         | (Some pas, w) \<Rightarrow>
             (case AVIStreamInfo S (Some pas) w of (asi, w) \<Rightarrow>
                if fccType asi = streamtypeVIDEO then setup_video S pas asi (fp, w)
                else if fccType asi = streamtypeAUDIO then setup_audio S pas asi (fp, w)
                else (fp, AVIStreamRelease (Some pas) w))))"

lemma unat_word_succ: "i < n \<Longrightarrow> unat (i + 1) = Suc (unat i)" for i n :: DWORD
  by unat_arith

lemma open_stream_fileinfo: "fileinfo (fst (open_stream S i (fp, w))) = fileinfo fp"
  by (simp add: open_stream_def setup_video_def setup_audio_def Let_def split: prod.splits option.splits)

text \<open>\<open>for (DWORD i = 0; i < fp->fileinfo.dwStreams; i++)\<close>, from the index \<open>i\<close> on.\<close>

function open_loop :: "service \<Rightarrow> DWORD \<Rightarrow> FILE_HANDLE \<times> world \<Rightarrow> FILE_HANDLE \<times> world" where
  "open_loop S i (fp, w) =
     (if i < dwStreams (fileinfo fp) then open_loop S (i + 1) (open_stream S i (fp, w))
      else (fp, w))"
  by pat_completeness auto

termination open_loop
proof (relation "measure (\<lambda>(S, i, fp, w). unat (dwStreams (fileinfo fp)) - unat i)")
  show "wf (measure (\<lambda>(S, i, fp, w). unat (dwStreams (fileinfo fp)) - unat i))"
    by simp
next
  fix S :: service and i :: DWORD and fp :: FILE_HANDLE and w :: world
  assume lt: "i < dwStreams (fileinfo fp)"
  obtain fp' w' where o: "open_stream S i (fp, w) = (fp', w')"
    by (cases "open_stream S i (fp, w)")
  have "fileinfo fp' = fileinfo fp"
    using open_stream_fileinfo [of S i fp w] o by simp
  moreover have "unat i < unat (dwStreams (fileinfo fp))"
    using lt by (simp add: word_less_nat_alt)
  ultimately show "((S, i + 1, open_stream S i (fp, w)), (S, i, fp, w))
      \<in> measure (\<lambda>(S, i, fp, w). unat (dwStreams (fileinfo fp)) - unat i)"
    using o lt by (simp add: unat_word_succ [OF lt])
qed

declare open_loop.simps [simp del]

text \<open>
  \<open>func_open\<close>. The record is built in a local variable and stored at its address when
  the function returns it; on the two failure paths nothing is stored.
\<close>

definition func_open :: "service \<Rightarrow> world \<Rightarrow> string \<Rightarrow> ptr \<times> world" where
  "func_open S w file =
     (case GlobalAlloc S Sizeof_FILE_HANDLE w of
        (None, w) \<Rightarrow> (None, w)
      | (Some a, w) \<Rightarrow>
          (let fp = zero_FILE_HANDLE
           in case AVIFileOpen S file w of
                (None, w) \<Rightarrow> (None, GlobalFree (Some a) w)
              | (Some pf, w) \<Rightarrow>
                  (let fp = fp\<lparr>pfile := Some pf\<rparr>
                   in case AVIFileInfo S (pfile fp) w of
                        (None, w) \<Rightarrow> (Some a, w\<lparr>sessions := (sessions w)(a \<mapsto> fp)\<rparr>)
                      | (Some fi, w) \<Rightarrow>
                          (case open_loop S 0 (fp\<lparr>fileinfo := fi\<rparr>, w) of
                             (fp, w) \<Rightarrow> (Some a, w\<lparr>sessions := (sessions w)(a \<mapsto> fp)\<rparr>)))))"

subsection \<open>func_close, lines 146 to 163\<close>

text \<open>
  What C leaves undefined is an error value: reading through a null pointer, through a
  pointer to no live record, from a block whose contents were never written, or beyond
  the end of a block.
\<close>

datatype error = NullDeref | InvalidPointer | IndeterminateRead | OutOfBounds

definition func_close :: "world \<Rightarrow> ptr \<Rightarrow> error + (bool \<times> world)" where
  "func_close w ih =
     (case ih of
        None \<Rightarrow> Inr (True, w)
      | Some a \<Rightarrow>
          (case sessions w a of
             None \<Rightarrow> Inl InvalidPointer
           | Some fp \<Rightarrow>
               (let w = (if flag fp AND FLAG_AUDIO \<noteq> 0
                         then GlobalFree (audioformat fp) (AVIStreamRelease (paudio fp) w) else w);
                    w = (if flag fp AND FLAG_VIDEO \<noteq> 0
                         then GlobalFree (videoformat fp) (AVIStreamRelease (pvideo fp) w) else w);
                    w = AVIFileRelease (pfile fp) w;
                    w = GlobalFree (Some a) w
                in Inr (True, w))))"

subsection \<open>func_info_get, lines 168 to 189\<close>

text \<open>\<open>fp = (FILE_HANDLE*)ih\<close> followed by a read of a field of \<open>*fp\<close>.\<close>

definition deref :: "world \<Rightarrow> ptr \<Rightarrow> error + FILE_HANDLE" where
  "deref w ih =
     (case ih of
        None \<Rightarrow> Inl NullDeref
      | Some a \<Rightarrow> (case sessions w a of None \<Rightarrow> Inl InvalidPointer | Some fp \<Rightarrow> Inr fp))"

text \<open>
  \<open>struct INPUT_INFO\<close> of input2.h: the fields the source writes. Its field \<open>flag\<close> is
  \<open>info_flag\<close> here, \<open>flag\<close> being the field of \<open>FILE_HANDLE\<close>.
\<close>

record INPUT_INFO =
  info_flag :: cint
  rate :: cint
  scale :: cint
  n :: cint
  format :: ptr
  format_size :: cint
  audio_n :: cint
  audio_format :: ptr
  audio_format_size :: cint

text \<open>
  The constants \<open>INPUT_INFO::FLAG_VIDEO\<close> and \<open>INPUT_INFO::FLAG_AUDIO\<close> are declared in
  input2.h, which is not among the sources: they are parameters.
\<close>

record input2_h =
  INPUT_INFO_FLAG_VIDEO :: cint
  INPUT_INFO_FLAG_AUDIO :: cint

definition func_info_get ::
  "input2_h \<Rightarrow> world \<Rightarrow> ptr \<Rightarrow> INPUT_INFO \<Rightarrow> error + (bool \<times> INPUT_INFO \<times> world)" where
  "func_info_get H w ih iip =
     (case deref w ih of
        Inl e \<Rightarrow> Inl e
      | Inr fp \<Rightarrow>
          (let iip = iip\<lparr>info_flag := 0\<rparr>;
               iip = (if flag fp AND FLAG_VIDEO \<noteq> 0
                      then iip\<lparr>info_flag := info_flag iip OR INPUT_INFO_FLAG_VIDEO H,
                               rate := dwRate (videoinfo fp),
                               scale := dwScale (videoinfo fp),
                               n := dwLength (videoinfo fp),
                               format := videoformat fp,
                               format_size := videoformatsize fp\<rparr>
                      else iip);
               iip = (if flag fp AND FLAG_AUDIO \<noteq> 0
                      then iip\<lparr>info_flag := info_flag iip OR INPUT_INFO_FLAG_AUDIO H,
                               audio_n := dwLength (audioinfo fp),
                               audio_format := audioformat fp,
                               audio_format_size := audioformatsize fp\<rparr>
                      else iip)
           in Inr (True, iip, w)))"

subsection \<open>func_read_video, lines 194 to 201\<close>

text \<open>
  Both calls pass a variable (\<open>&videosize\<close>, then \<open>&size\<close>, here \<open>sz\<close>) as \<open>plBytes\<close> and NULL as \<open>plSamples\<close>:
  the first component of the service's answer is kept.
\<close>

definition func_read_video ::
  "service \<Rightarrow> world \<Rightarrow> ptr \<Rightarrow> cint \<Rightarrow> ptr \<Rightarrow> error + (cint \<times> world)" where
  "func_read_video S w ih frame buf =
     (case deref w ih of
        Inl e \<Rightarrow> Inl e
      | Inr fp \<Rightarrow>
          (case AVIStreamRead S (pvideo fp) frame 1 None 0 w of
             (None, w) \<Rightarrow> Inr (0, w)
           | (Some (videosize, _), w) \<Rightarrow>
               (case AVIStreamRead S (pvideo fp) frame 1 buf videosize w of
                  (None, w) \<Rightarrow> Inr (0, w)
                | (Some (sz, _), w) \<Rightarrow> Inr (sz, w))))"

subsection \<open>func_read_audio, lines 206 to 214\<close>

text \<open>
  \<open>((WAVEFORMATEX*)p)->nBlockAlign\<close>: in the Windows declaration of \<open>WAVEFORMATEX\<close>
  (packed) the field is the 16-bit little-endian value at byte offset 12.
\<close>

definition nBlockAlign :: "world \<Rightarrow> ptr \<Rightarrow> error + 16 word" where
  "nBlockAlign w p =
     (case p of
        None \<Rightarrow> Inl NullDeref
      | Some a \<Rightarrow>
          (case mem w a of
             None \<Rightarrow> Inl IndeterminateRead
           | Some bs \<Rightarrow>
               if length bs < 14 then Inl OutOfBounds
               else Inr (push_bit 8 (ucast (bs ! 13)) OR ucast (bs ! 12))))"

text \<open>
  The call passes NULL as \<open>plBytes\<close> and \<open>&size\<close> (here \<open>sz\<close>) as \<open>plSamples\<close>: the second
  component of the service's answer is kept.
\<close>

definition func_read_audio ::
  "service \<Rightarrow> world \<Rightarrow> ptr \<Rightarrow> cint \<Rightarrow> cint \<Rightarrow> ptr \<Rightarrow> error + (cint \<times> world)" where
  "func_read_audio S w ih start len buf =
     (case deref w ih of
        Inl e \<Rightarrow> Inl e
      | Inr fp \<Rightarrow>
          (case nBlockAlign w (audioformat fp) of
             Inl e \<Rightarrow> Inl e
           | Inr b \<Rightarrow>
               (let samplesize = (ucast b :: cint)
                in case AVIStreamRead S (paudio fp) start len buf (samplesize * len) w of
                     (None, w) \<Rightarrow> Inr (0, w)
                   | (Some (_, sz), w) \<Rightarrow> Inr (sz, w))))"

subsection \<open>Notions the statements use\<close>

text \<open>What a call returns to the host: the error, or the value without the state.\<close>

definition returned :: "error + ('a \<times> world) \<Rightarrow> error + 'a" where
  "returned r = map_sum id fst r"

text \<open>The trace after a call (empty when the call is undefined).\<close>

definition trace_of :: "error + ('a \<times> world) \<Rightarrow> event list" where
  "trace_of r = (case r of Inl e \<Rightarrow> [] | Inr (x, w) \<Rightarrow> trace w)"

text \<open>
  The type of the stream \<open>i\<close> as the loop of \<open>func_open\<close> sees it: the \<open>fccType\<close> that
  \<open>AVIStreamInfo\<close> gives for the handle from \<open>AVIFileGetStream\<close>, and \<open>None\<close> when that
  call fails.
\<close>

definition stream_type :: "service \<Rightarrow> ptr \<Rightarrow> DWORD \<Rightarrow> DWORD option" where
  "stream_type S pf i =
     (case AVIFileGetStream_result S pf i of
        None \<Rightarrow> None
      | Some pas \<Rightarrow> Some (fccType (AVIStreamInfo_result S (Some pas))))"

text \<open>
  The calls the host makes between Open and Close, in order; the state after them, or
  the error of the first undefined one.
\<close>

datatype call =
    Info_get input2_h ptr INPUT_INFO
  | Read_video ptr cint ptr
  | Read_audio ptr cint cint ptr

fun host_calls :: "service \<Rightarrow> call list \<Rightarrow> world \<Rightarrow> error + world" where
  "host_calls S [] w = Inr w"
| "host_calls S (Info_get H ih iip # cs) w =
     (case func_info_get H w ih iip of Inl e \<Rightarrow> Inl e | Inr (_, _, w') \<Rightarrow> host_calls S cs w')"
| "host_calls S (Read_video ih frame buf # cs) w =
     (case func_read_video S w ih frame buf of Inl e \<Rightarrow> Inl e | Inr (_, w') \<Rightarrow> host_calls S cs w')"
| "host_calls S (Read_audio ih start len buf # cs) w =
     (case func_read_audio S w ih start len buf of Inl e \<Rightarrow> Inl e | Inr (_, w') \<Rightarrow> host_calls S cs w')"

subsection \<open>Fixtures\<close>

text \<open>
  A concrete service for the closed theorems. The file \<open>movie.avi\<close> has one stream per
  entry of \<open>types\<close>, with the handles 10, 11, ... and the lengths 100, 200, ...; every
  stream reports a format of 18 bytes (a PCM \<open>WAVEFORMATEX\<close> with block alignment 4);
  a read succeeds for the positions 0 to 9 and reports 4 bytes per sample. The
  allocator is a parameter: \<open>alloc_all\<close> never fails, \<open>alloc_fail_at j\<close> fails at the
  \<open>j\<close>-th call only (counted from 0).
\<close>

definition fixture_format :: "byte list" where
  "fixture_format = [1, 0, 2, 0, 0x44, 0xAC, 0, 0, 0x10, 0xB1, 2, 0, 4, 0, 16, 0, 0, 0]"

definition avi_service :: "(nat \<Rightarrow> alloc_req \<Rightarrow> ptr) \<Rightarrow> DWORD list \<Rightarrow> service" where
  "avi_service alloc types =
     \<lparr>GlobalAlloc_result = alloc,
      AVIFileOpen_result = (\<lambda>f. if f = ''movie.avi'' then Some 1 else None),
      AVIFileInfo_result =
        (\<lambda>pf. if pf = Some 1 then Some \<lparr>dwStreams = of_nat (length types)\<rparr> else None),
      AVIFileGetStream_result =
        (\<lambda>pf i. if pf = Some 1 \<and> unat i < length types then Some (10 + unat i) else None),
      AVIStreamInfo_result =
        (\<lambda>h. case h of
               None \<Rightarrow> zero_AVISTREAMINFO
             | Some k \<Rightarrow> \<lparr>fccType = types ! (k - 10), dwScale = 1, dwRate = 30,
                          dwLength = of_nat (100 * (k - 9))\<rparr>),
      AVIStreamFormatSize_result = (\<lambda>h. Some 18),
      AVIStreamReadFormat_result = (\<lambda>h buf n. Some (fixture_format, 18)),
      AVIStreamRead_result =
        (\<lambda>h start samples buf cb.
           if h = None \<or> 10 \<le> start then None
           else Some (4 * samples, samples, if buf = None then [] else [1, 2, 3, 4]))\<rparr>"

definition alloc_all :: "nat \<Rightarrow> alloc_req \<Rightarrow> ptr" where
  "alloc_all k req = Some (100 + k)"

definition alloc_fail_at :: "nat \<Rightarrow> nat \<Rightarrow> alloc_req \<Rightarrow> ptr" where
  "alloc_fail_at j k req = (if k = j then None else Some (100 + k))"

definition world0 :: world where
  "world0 = \<lparr>sessions = Map.empty, mem = Map.empty, nalloc = 0, trace = []\<rparr>"

definition input2_h_fixture :: input2_h where
  "input2_h_fixture = \<lparr>INPUT_INFO_FLAG_VIDEO = 1, INPUT_INFO_FLAG_AUDIO = 2\<rparr>"

definition zero_INPUT_INFO :: INPUT_INFO where
  "zero_INPUT_INFO =
     \<lparr>info_flag = 0, rate = 0, scale = 0, n = 0, format = None, format_size = 0,
      audio_n = 0, audio_format = None, audio_format_size = 0\<rparr>"

text \<open>
  The fixture with a video and an audio stream and an allocator that never fails, and the
  world after opening it.
\<close>

definition movie :: service where
  "movie = avi_service alloc_all [streamtypeVIDEO, streamtypeAUDIO]"

definition opened_world :: world where
  "opened_world = snd (func_open movie world0 ''movie.avi'')"

definition opened_session :: FILE_HANDLE where
  "opened_session =
     \<lparr>flag = 3, pfile = Some 1, pvideo = Some 10, paudio = Some 11,
      fileinfo = \<lparr>dwStreams = 2\<rparr>,
      videoinfo = \<lparr>fccType = streamtypeVIDEO, dwScale = 1, dwRate = 30, dwLength = 100\<rparr>,
      audioinfo = \<lparr>fccType = streamtypeAUDIO, dwScale = 1, dwRate = 30, dwLength = 200\<rparr>,
      videoformat = Some 101, videoformatsize = 18,
      audioformat = Some 102, audioformatsize = 18\<rparr>"

text \<open>
  A file with two video streams (all allocations succeed), and the world after opening it.
\<close>

definition two_videos :: service where
  "two_videos = avi_service alloc_all [streamtypeVIDEO, streamtypeVIDEO]"

definition two_videos_world :: world where
  "two_videos_world = snd (func_open two_videos world0 ''movie.avi'')"

definition two_videos_session :: FILE_HANDLE where
  "two_videos_session =
     \<lparr>flag = 1, pfile = Some 1, pvideo = Some 11, paudio = None,
      fileinfo = \<lparr>dwStreams = 2\<rparr>,
      videoinfo = \<lparr>fccType = streamtypeVIDEO, dwScale = 1, dwRate = 30, dwLength = 200\<rparr>,
      audioinfo = zero_AVISTREAMINFO,
      videoformat = Some 102, videoformatsize = 18,
      audioformat = None, audioformatsize = 0\<rparr>"

text \<open>
  A file with one video stream whose format allocation fails, and the world after opening
  it.
\<close>

definition video_alloc_fails :: service where
  "video_alloc_fails = avi_service (alloc_fail_at 1) [streamtypeVIDEO]"

definition video_alloc_fails_world :: world where
  "video_alloc_fails_world = snd (func_open video_alloc_fails world0 ''movie.avi'')"

definition video_alloc_fails_session :: FILE_HANDLE where
  "video_alloc_fails_session =
     \<lparr>flag = 0, pfile = Some 1, pvideo = Some 10, paudio = None,
      fileinfo = \<lparr>dwStreams = 1\<rparr>,
      videoinfo = \<lparr>fccType = streamtypeVIDEO, dwScale = 1, dwRate = 30, dwLength = 100\<rparr>,
      audioinfo = zero_AVISTREAMINFO,
      videoformat = None, videoformatsize = 18,
      audioformat = None, audioformatsize = 0\<rparr>"

text \<open>Files with a single stream (all allocations succeed), and the worlds after opening them.\<close>

definition video_only :: service where
  "video_only = avi_service alloc_all [streamtypeVIDEO]"

definition video_only_world :: world where
  "video_only_world = snd (func_open video_only world0 ''movie.avi'')"

definition video_only_session :: FILE_HANDLE where
  "video_only_session =
     \<lparr>flag = 1, pfile = Some 1, pvideo = Some 10, paudio = None,
      fileinfo = \<lparr>dwStreams = 1\<rparr>,
      videoinfo = \<lparr>fccType = streamtypeVIDEO, dwScale = 1, dwRate = 30, dwLength = 100\<rparr>,
      audioinfo = zero_AVISTREAMINFO,
      videoformat = Some 101, videoformatsize = 18,
      audioformat = None, audioformatsize = 0\<rparr>"

definition audio_only :: service where
  "audio_only = avi_service alloc_all [streamtypeAUDIO]"

definition audio_only_world :: world where
  "audio_only_world = snd (func_open audio_only world0 ''movie.avi'')"

definition audio_only_session :: FILE_HANDLE where
  "audio_only_session =
     \<lparr>flag = 0, pfile = Some 1, pvideo = None, paudio = Some 10,
      fileinfo = \<lparr>dwStreams = 1\<rparr>,
      videoinfo = zero_AVISTREAMINFO,
      audioinfo = \<lparr>fccType = streamtypeAUDIO, dwScale = 1, dwRate = 30, dwLength = 100\<rparr>,
      videoformat = None, videoformatsize = 0,
      audioformat = Some 101, audioformatsize = 18\<rparr>"

text \<open>
  A file with a video stream followed by two audio streams (all allocations succeed), and
  the world after opening it.
\<close>

definition video_two_audios :: service where
  "video_two_audios = avi_service alloc_all [streamtypeVIDEO, streamtypeAUDIO, streamtypeAUDIO]"

definition video_two_audios_world :: world where
  "video_two_audios_world = snd (func_open video_two_audios world0 ''movie.avi'')"

definition video_two_audios_session :: FILE_HANDLE where
  "video_two_audios_session =
     \<lparr>flag = 3, pfile = Some 1, pvideo = Some 10, paudio = Some 12,
      fileinfo = \<lparr>dwStreams = 3\<rparr>,
      videoinfo = \<lparr>fccType = streamtypeVIDEO, dwScale = 1, dwRate = 30, dwLength = 100\<rparr>,
      audioinfo = \<lparr>fccType = streamtypeAUDIO, dwScale = 1, dwRate = 30, dwLength = 300\<rparr>,
      videoformat = Some 101, videoformatsize = 18,
      audioformat = Some 103, audioformatsize = 18\<rparr>"

section \<open>Evaluation of the fixtures\<close>

lemmas service_calls = GlobalAlloc_def GlobalFree_def AVIFileOpen_def AVIFileInfo_def
  AVIFileGetStream_def AVIStreamInfo_def AVIStreamFormatSize_def AVIStreamReadFormat_def
  AVIStreamRelease_def AVIFileRelease_def AVIStreamRead_def emit_def

lemmas open_eval = func_open_def open_loop.simps open_stream_def setup_video_def setup_audio_def
  service_calls Let_def movie_def two_videos_def video_alloc_fails_def video_only_def
  audio_only_def
  avi_service_def alloc_all_def alloc_fail_at_def world0_def
  zero_FILE_HANDLE_def zero_AVISTREAMINFO_def streamtypeVIDEO_def streamtypeAUDIO_def
  FLAG_VIDEO_def FLAG_AUDIO_def

lemma func_open_fixture:
  "func_open movie world0 ''movie.avi'' =
     (Some 100,
      \<lparr>sessions = [100 \<mapsto> opened_session],
       mem = [101 \<mapsto> fixture_format, 102 \<mapsto> fixture_format],
       nalloc = 3,
       trace =
         [EvGlobalAlloc Sizeof_FILE_HANDLE (Some 100),
          EvAVIFileOpen ''movie.avi'' (Some 1), EvAVIFileInfo (Some 1),
          EvAVIFileGetStream (Some 1) 0 (Some 10), EvAVIStreamInfo (Some 10),
          EvAVIStreamFormatSize (Some 10),
          EvGlobalAlloc (Size_LONG 18) (Some 101),
          EvAVIStreamReadFormat (Some 10) (Some 101) 18,
          EvAVIFileGetStream (Some 1) 1 (Some 11), EvAVIStreamInfo (Some 11),
          EvAVIStreamFormatSize (Some 11),
          EvGlobalAlloc (Size_LONG 18) (Some 102),
          EvAVIStreamReadFormat (Some 11) (Some 102) 18]\<rparr>)"
  by (simp add: open_eval opened_session_def)

lemma opened_world_session: "sessions opened_world 100 = Some opened_session"
  by (simp add: opened_world_def func_open_fixture)

lemma opened_world_nBlockAlign: "nBlockAlign opened_world (audioformat opened_session) = Inr 4"
  by (simp add: nBlockAlign_def opened_world_def func_open_fixture opened_session_def
      fixture_format_def)

section \<open>Open fails\<close>

text \<open>
  C6. \<open>func_open\<close> returns NULL exactly when the allocation of the record fails or the
  service does not open the path. In the first case the only call made is the failed
  allocation; in the second the calls are the allocation, the failed AVIFileOpen and the
  free of the record, so that no service handle was acquired and the record is freed.
  In both cases no record is stored: the live records afterwards are among those before.
\<close>

theorem func_open_failure:
  "(fst (func_open S w file) = None \<longleftrightarrow>
      GlobalAlloc_result S (nalloc w) Sizeof_FILE_HANDLE = None \<or> AVIFileOpen_result S file = None) \<and>
   (GlobalAlloc_result S (nalloc w) Sizeof_FILE_HANDLE = None \<longrightarrow>
      func_open S w file =
        (None, w\<lparr>nalloc := Suc (nalloc w),
                  trace := trace w @ [EvGlobalAlloc Sizeof_FILE_HANDLE None]\<rparr>)) \<and>
   (GlobalAlloc_result S (nalloc w) Sizeof_FILE_HANDLE = Some a \<and> AVIFileOpen_result S file = None \<longrightarrow>
      func_open S w file =
        (None, w\<lparr>sessions := (sessions w)(a := None), mem := (mem w)(a := None),
                  nalloc := Suc (nalloc w),
                  trace := trace w @ [EvGlobalAlloc Sizeof_FILE_HANDLE (Some a),
                                      EvAVIFileOpen file None, EvGlobalFree (Some a)]\<rparr>)) \<and>
   (fst (func_open S w file) = None \<longrightarrow>
      dom (sessions (snd (func_open S w file))) \<subseteq> dom (sessions w))"
  by (auto simp: func_open_def service_calls Let_def split: option.splits prod.splits)

theorem func_open_failure_witness:
  "func_open movie world0 ''missing.avi'' =
     (None, \<lparr>sessions = Map.empty, mem = Map.empty, nalloc = 1,
             trace = [EvGlobalAlloc Sizeof_FILE_HANDLE (Some 100),
                      EvAVIFileOpen ''missing.avi'' None, EvGlobalFree (Some 100)]\<rparr>) \<and>
   func_open (avi_service (alloc_fail_at 0) [streamtypeVIDEO]) world0 ''movie.avi'' =
     (None, \<lparr>sessions = Map.empty, mem = Map.empty, nalloc = 1,
             trace = [EvGlobalAlloc Sizeof_FILE_HANDLE None]\<rparr>)"
proof -
  have "GlobalAlloc_result movie (nalloc world0) Sizeof_FILE_HANDLE = Some 100 \<and>
        AVIFileOpen_result movie ''missing.avi'' = None"
    by (simp add: movie_def avi_service_def alloc_all_def world0_def)
  with func_open_failure [of movie world0 "''missing.avi''" 100]
  have 1: "func_open movie world0 ''missing.avi'' =
        (None, world0\<lparr>sessions := (sessions world0)(100 := None), mem := (mem world0)(100 := None),
                  nalloc := Suc (nalloc world0),
                  trace := trace world0 @ [EvGlobalAlloc Sizeof_FILE_HANDLE (Some 100),
                                      EvAVIFileOpen ''missing.avi'' None, EvGlobalFree (Some 100)]\<rparr>)"
    by blast
  have "GlobalAlloc_result (avi_service (alloc_fail_at 0) [streamtypeVIDEO]) (nalloc world0)
          Sizeof_FILE_HANDLE = None"
    by (simp add: avi_service_def alloc_fail_at_def world0_def)
  with func_open_failure [of "avi_service (alloc_fail_at 0) [streamtypeVIDEO]" world0 "''movie.avi''"]
  have 2: "func_open (avi_service (alloc_fail_at 0) [streamtypeVIDEO]) world0 ''movie.avi'' =
        (None, world0\<lparr>nalloc := Suc (nalloc world0),
                  trace := trace world0 @ [EvGlobalAlloc Sizeof_FILE_HANDLE None]\<rparr>)"
    by blast
  show ?thesis
    unfolding 1 2 by (simp add: world0_def)
qed

section \<open>The two phases of func_read_video\<close>



section \<open>Close\<close>

text \<open>
  C8. \<open>func_close\<close> returns true whenever it returns: a null handle is accepted, nothing
  is released and the state is left as it was; for the handle of a live record the call
  returns true; and no input makes it return false. (A non-null handle of no live record
  is undefined behaviour in C, the error value of the embedding.)
\<close>

theorem func_close_succeeds:
  "func_close w None = Inr (True, w) \<and>
   (sessions w a = Some fp \<longrightarrow> (\<exists>w'. func_close w (Some a) = Inr (True, w'))) \<and>
   (\<forall>b w'. func_close w ih = Inr (b, w') \<longrightarrow> b)"
  by (auto simp: func_close_def Let_def split: option.splits)

theorem func_close_succeeds_witness:
  "func_close opened_world None = Inr (True, opened_world) \<and>
   sessions opened_world 100 = Some opened_session \<and>
   (\<exists>w'. func_close opened_world (Some 100) = Inr (True, w'))"
  using func_close_succeeds [of opened_world 100 opened_session "Some 100"]
  by (simp add: opened_world_session)

text \<open>
  C7. \<open>func_close\<close> on the handle of a live record makes its calls in this order: the
  release of the audio stream and the free of the audio format (both only when FLAG_AUDIO
  is set), the release of the video stream and the free of the video format (both only
  when FLAG_VIDEO is set), the release of the file, the free of the record; the record
  is gone afterwards.
\<close>

theorem func_close_release_order:
  assumes "sessions w a = Some fp"
  shows "\<exists>w'. func_close w (Some a) = Inr (True, w') \<and>
           trace w' = trace w
             @ (if flag fp AND FLAG_AUDIO \<noteq> 0
                then [EvAVIStreamRelease (paudio fp), EvGlobalFree (audioformat fp)] else [])
             @ (if flag fp AND FLAG_VIDEO \<noteq> 0
                then [EvAVIStreamRelease (pvideo fp), EvGlobalFree (videoformat fp)] else [])
             @ [EvAVIFileRelease (pfile fp), EvGlobalFree (Some a)] \<and>
           sessions w' a = None"
  using assms
  by (simp add: func_close_def Let_def service_calls split: option.splits)

theorem func_close_release_order_witness:
  "sessions opened_world 100 = Some opened_session \<and>
   (\<exists>w'. func_close opened_world (Some 100) = Inr (True, w') \<and>
      trace w' = trace opened_world
        @ [EvAVIStreamRelease (Some 11), EvGlobalFree (Some 102),
           EvAVIStreamRelease (Some 10), EvGlobalFree (Some 101),
           EvAVIFileRelease (Some 1), EvGlobalFree (Some 100)] \<and>
      sessions w' 100 = None)"
  using func_close_release_order [OF opened_world_session]
  by (simp add: opened_world_session opened_session_def FLAG_VIDEO_def FLAG_AUDIO_def)

section \<open>What func_read_audio passes and returns\<close>

lemma sint_ucast_mult:
  fixes b :: "16 word" and len :: "32 word"
  assumes "- (2 ^ 31) \<le> uint b * sint len" "uint b * sint len < 2 ^ 31"
  shows "sint ((ucast b :: 32 word) * len) = uint b * sint len"
proof -
  have ub: "uint b < 2 ^ 16"
    using uint_lt2p [of b] by simp
  have "uint (ucast b :: 32 word) = uint b"
    by (simp add: uint_up_ucast is_up)
  moreover have "signed_take_bit 31 (uint b) = uint b"
  proof (rule signed_take_bit_int_eq_self)
    have "- (2 ^ 31) \<le> (0::int)"
      by simp
    also have "0 \<le> uint b"
      by simp
    finally show "- (2 ^ 31) \<le> uint b" .
    show "uint b < 2 ^ 31"
      using ub by simp
  qed
  ultimately have "sint (ucast b :: 32 word) = uint b"
    by (simp add: sint_uint)
  then have "sint ((ucast b :: 32 word) * len) = signed_take_bit 31 (uint b * sint len)"
    by (simp add: sint_word_mult)
  then show ?thesis
    using assms by (simp add: signed_take_bit_int_eq_self)
qed

text \<open>
  C5 (amended). \<open>func_read_audio\<close> on the handle of a live record whose audio format
  can be read passes to the service, as the capacity of the buffer, the product of the
  sample count and the block alignment read from the audio format (a 32-bit product, equal
  to the product of the numbers when that fits in 32 bits). The value it returns is the
  one the service stores through \<open>plSamples\<close>, the number of samples read, not the byte
  count (\<open>plBytes\<close> is NULL in the call); it is 0 when the call fails.
\<close>

theorem func_read_audio_returns_samples:
  assumes "sessions w a = Some fp" and "nBlockAlign w (audioformat fp) = Inr b"
  shows "(\<exists>w'. func_read_audio S w (Some a) start len buf =
            Inr ((case AVIStreamRead_result S (paudio fp) start len buf (ucast b * len) of
                    None \<Rightarrow> 0
                  | Some (_, k, _) \<Rightarrow> k), w') \<and>
            trace w' = trace w @ [EvAVIStreamRead (paudio fp) start len buf (ucast b * len)]) \<and>
         (- (2 ^ 31) \<le> uint b * sint len \<and> uint b * sint len < 2 ^ 31 \<longrightarrow>
            sint ((ucast b :: cint) * len) = uint b * sint len)"
  using assms
  by (auto simp: func_read_audio_def deref_def service_calls Let_def sint_ucast_mult
      split: option.splits prod.splits)

theorem func_read_audio_returns_samples_witness:
  "sessions opened_world 100 = Some opened_session \<and>
   nBlockAlign opened_world (audioformat opened_session) = Inr 4 \<and>
   (\<exists>w'. func_read_audio movie opened_world (Some 100) 0 100 (Some 500) = Inr (100, w') \<and>
      trace w' = trace opened_world @ [EvAVIStreamRead (Some 11) 0 100 (Some 500) 400]) \<and>
   sint ((ucast (4 :: 16 word) :: cint) * 100) = 400"
proof -
  note t = func_read_audio_returns_samples
    [OF opened_world_session opened_world_nBlockAlign, of movie 0 100 "Some 500"]
  have p: "paudio opened_session = Some 11"
    by (simp add: opened_session_def)
  have r: "AVIStreamRead_result movie (Some 11) 0 100 (Some 500) 400 = Some (400, 100, [1, 2, 3, 4])"
    by (simp add: movie_def avi_service_def)
  from t have "\<exists>w'. func_read_audio movie opened_world (Some 100) 0 100 (Some 500) = Inr (100, w') \<and>
      trace w' = trace opened_world @ [EvAVIStreamRead (Some 11) 0 100 (Some 500) 400]"
    unfolding p by (simp add: r)
  with opened_world_session opened_world_nBlockAlign show ?thesis
    by simp
qed

text \<open>
  The claim as first stated fails: the fixture's service reports 400 bytes and 100
  samples for a read of 100 samples, and the function returns 100.
\<close>

theorem func_read_audio_byte_count_counterexample:
  "AVIStreamRead_result movie (Some 11) 0 100 (Some 500) 400 = Some (400, 100, [1, 2, 3, 4]) \<and>
   returned (func_read_audio movie opened_world (Some 100) 0 100 (Some 500)) = Inr 100"
proof -
  have r: "AVIStreamRead_result movie (Some 11) 0 100 (Some 500) 400 = Some (400, 100, [1, 2, 3, 4])"
    by (simp add: movie_def avi_service_def)
  have "nBlockAlign opened_world (Some 102) = Inr 4"
    using opened_world_nBlockAlign by (simp add: opened_session_def)
  then have "returned (func_read_audio movie opened_world (Some 100) 0 100 (Some 500)) = Inr 100"
    by (simp add: returned_def func_read_audio_def deref_def opened_world_session service_calls
        opened_session_def r)
  with r show ?thesis
    by simp
qed

section \<open>No operation but Open and Close changes a record\<close>

lemma func_read_video_returns:
  "sessions w a = Some fp \<Longrightarrow> \<exists>r w'. func_read_video S w (Some a) frame buf = Inr (r, w')"
  by (auto simp: func_read_video_def deref_def split: option.splits prod.splits)

lemma func_read_audio_returns:
  "sessions w a = Some fp \<Longrightarrow> nBlockAlign w (audioformat fp) = Inr b \<Longrightarrow> 
   \<exists>r w'. func_read_audio S w (Some a) start len buf = Inr (r, w')"
  by (auto simp: func_read_audio_def deref_def Let_def split: option.splits prod.splits)

text \<open>
  C9. \<open>func_info_get\<close>, \<open>func_read_video\<close> and \<open>func_read_audio\<close> leave every record as
  it was: whenever one of them returns, the records (flags, handles, cached stream
  information, format pointers and sizes) are unchanged, and so is every buffer other
  than the one the caller passed to a read. \<open>func_info_get\<close> makes no call at all: the
  whole state, trace included, is the one it was given, and on the handle of a live
  record it returns true.
\<close>

theorem session_not_mutated:
  "(\<forall>b iip' w'. func_info_get H w ih iip = Inr (b, iip', w') \<longrightarrow> b \<and> w' = w) \<and>
   (\<forall>r w'. func_read_video S w ih frame buf = Inr (r, w') \<longrightarrow>
      sessions w' = sessions w \<and> (\<forall>p. buf \<noteq> Some p \<longrightarrow> mem w' p = mem w p)) \<and>
   (\<forall>r w'. func_read_audio S w ih start len buf = Inr (r, w') \<longrightarrow>
      sessions w' = sessions w \<and> (\<forall>p. buf \<noteq> Some p \<longrightarrow> mem w' p = mem w p)) \<and>
   (sessions w a = Some fp \<longrightarrow> (\<exists>iip'. func_info_get H w (Some a) iip = Inr (True, iip', w)))"
proof (intro conjI allI impI)
  fix b iip' w'
  assume "func_info_get H w ih iip = Inr (b, iip', w')"
  then show "b" "w' = w"
    by (auto simp: func_info_get_def Let_def split: sum.splits)
next
  fix r w'
  assume "func_read_video S w ih frame buf = Inr (r, w')"
  then show "sessions w' = sessions w"
    by (auto simp: func_read_video_def service_calls Let_def split: sum.splits option.splits prod.splits)
next
  fix r w' p
  assume "func_read_video S w ih frame buf = Inr (r, w')" "buf \<noteq> Some p"
  then show "mem w' p = mem w p"
    by (auto simp: func_read_video_def service_calls Let_def split: sum.splits option.splits prod.splits)
next
  fix r w'
  assume "func_read_audio S w ih start len buf = Inr (r, w')"
  then show "sessions w' = sessions w"
    by (auto simp: func_read_audio_def service_calls Let_def split: sum.splits option.splits prod.splits)
next
  fix r w' p
  assume "func_read_audio S w ih start len buf = Inr (r, w')" "buf \<noteq> Some p"
  then show "mem w' p = mem w p"
    by (auto simp: func_read_audio_def service_calls Let_def split: sum.splits option.splits prod.splits)
next
  assume "sessions w a = Some fp"
  then show "\<exists>iip'. func_info_get H w (Some a) iip = Inr (True, iip', w)"
    by (simp add: func_info_get_def deref_def Let_def)
qed

theorem session_not_mutated_witness:
  "func_info_get input2_h_fixture opened_world (Some 100) zero_INPUT_INFO =
     Inr (True,
          \<lparr>info_flag = 3, rate = 30, scale = 1, n = 100, format = Some 101, format_size = 18,
           audio_n = 200, audio_format = Some 102, audio_format_size = 18\<rparr>,
          opened_world) \<and>
   (\<exists>r w'. func_read_video movie opened_world (Some 100) 0 (Some 500) = Inr (r, w') \<and>
      sessions w' = sessions opened_world \<and> mem w' 101 = mem opened_world 101 \<and>
      mem w' 102 = mem opened_world 102) \<and>
   (\<exists>r w'. func_read_audio movie opened_world (Some 100) 0 100 (Some 500) = Inr (r, w') \<and>
      sessions w' = sessions opened_world \<and> mem w' 101 = mem opened_world 101 \<and>
      mem w' 102 = mem opened_world 102)"
proof -
  note t = session_not_mutated [of input2_h_fixture opened_world "Some 100" zero_INPUT_INFO
      movie _ "Some 500" _ _ 100 opened_session]
  have 1: "func_info_get input2_h_fixture opened_world (Some 100) zero_INPUT_INFO =
     Inr (True,
          \<lparr>info_flag = 3, rate = 30, scale = 1, n = 100, format = Some 101, format_size = 18,
           audio_n = 200, audio_format = Some 102, audio_format_size = 18\<rparr>,
          opened_world)"
    by (simp add: func_info_get_def deref_def opened_world_session opened_session_def Let_def
        FLAG_VIDEO_def FLAG_AUDIO_def input2_h_fixture_def zero_INPUT_INFO_def)
  obtain r w' where 2: "func_read_video movie opened_world (Some 100) 0 (Some 500) = Inr (r, w')"
    using func_read_video_returns [OF opened_world_session] by blast
  obtain r' w'' where 3: "func_read_audio movie opened_world (Some 100) 0 100 (Some 500) = Inr (r', w'')"
    using func_read_audio_returns [OF opened_world_session opened_world_nBlockAlign] by blast
  from t [of 0 0 100] 2 have "sessions w' = sessions opened_world \<and> mem w' 101 = mem opened_world 101 \<and>
      mem w' 102 = mem opened_world 102"
    by simp
  moreover from t [of 0 0 100] 3 have "sessions w'' = sessions opened_world \<and> mem w'' 101 = mem opened_world 101 \<and>
      mem w'' 102 = mem opened_world 102"
    by simp
  ultimately show ?thesis
    using 1 2 3 by simp
qed

section \<open>The allocation of the audio format fails\<close>

text \<open>
  C1. The claim: when the allocation of the audio format fails, the audio stream is
  released, FLAG_AUDIO is not set and \<open>func_open\<close> still succeeds, as on the video side.
  The code at the failing input: the fixture has a video stream and an audio stream, and
  the third allocation, that of the audio format, fails. \<open>func_open\<close> succeeds, but the
  test of line 127 reads \<open>fp->videoformat\<close>, which is non-null, so \<open>AVIStreamReadFormat\<close>
  is called with a null buffer, FLAG_AUDIO is set (the flag is 3) with a null
  \<open>audioformat\<close>, and the audio stream 11 is never released. The video side (second
  equation: one video stream whose format allocation fails) tests its own pointer,
  releases the stream 10 and leaves the flag 0.
\<close>

theorem func_open_audio_alloc_failure:
  "func_open (avi_service (alloc_fail_at 2) [streamtypeVIDEO, streamtypeAUDIO]) world0 ''movie.avi'' =
     (Some 100,
      \<lparr>sessions =
         [100 \<mapsto> \<lparr>flag = 3, pfile = Some 1, pvideo = Some 10, paudio = Some 11,
                  fileinfo = \<lparr>dwStreams = 2\<rparr>,
                  videoinfo = \<lparr>fccType = streamtypeVIDEO, dwScale = 1, dwRate = 30, dwLength = 100\<rparr>,
                  audioinfo = \<lparr>fccType = streamtypeAUDIO, dwScale = 1, dwRate = 30, dwLength = 200\<rparr>,
                  videoformat = Some 101, videoformatsize = 18,
                  audioformat = None, audioformatsize = 18\<rparr>],
       mem = [101 \<mapsto> fixture_format],
       nalloc = 3,
       trace =
         [EvGlobalAlloc Sizeof_FILE_HANDLE (Some 100),
          EvAVIFileOpen ''movie.avi'' (Some 1), EvAVIFileInfo (Some 1),
          EvAVIFileGetStream (Some 1) 0 (Some 10), EvAVIStreamInfo (Some 10),
          EvAVIStreamFormatSize (Some 10),
          EvGlobalAlloc (Size_LONG 18) (Some 101),
          EvAVIStreamReadFormat (Some 10) (Some 101) 18,
          EvAVIFileGetStream (Some 1) 1 (Some 11), EvAVIStreamInfo (Some 11),
          EvAVIStreamFormatSize (Some 11),
          EvGlobalAlloc (Size_LONG 18) None,
          EvAVIStreamReadFormat (Some 11) None 18]\<rparr>) \<and>
   (3 :: cint) AND FLAG_AUDIO = FLAG_AUDIO \<and>
   func_open (avi_service (alloc_fail_at 1) [streamtypeVIDEO]) world0 ''movie.avi'' =
     (Some 100,
      \<lparr>sessions =
         [100 \<mapsto> \<lparr>flag = 0, pfile = Some 1, pvideo = Some 10, paudio = None,
                  fileinfo = \<lparr>dwStreams = 1\<rparr>,
                  videoinfo = \<lparr>fccType = streamtypeVIDEO, dwScale = 1, dwRate = 30, dwLength = 100\<rparr>,
                  audioinfo = zero_AVISTREAMINFO,
                  videoformat = None, videoformatsize = 18,
                  audioformat = None, audioformatsize = 0\<rparr>],
       mem = Map.empty,
       nalloc = 2,
       trace =
         [EvGlobalAlloc Sizeof_FILE_HANDLE (Some 100),
          EvAVIFileOpen ''movie.avi'' (Some 1), EvAVIFileInfo (Some 1),
          EvAVIFileGetStream (Some 1) 0 (Some 10), EvAVIStreamInfo (Some 10),
          EvAVIStreamFormatSize (Some 10),
          EvGlobalAlloc (Size_LONG 18) None,
          EvAVIStreamRelease (Some 10)]\<rparr>)"
  by (simp add: open_eval)

section \<open>The loop of func_open\<close>

lemma streamtypes_differ:
  "streamtypeVIDEO \<noteq> streamtypeAUDIO" "streamtypeAUDIO \<noteq> streamtypeVIDEO"
  by (simp_all add: streamtypeVIDEO_def streamtypeAUDIO_def)

lemma flag_or_audio_video: "(f OR FLAG_AUDIO) AND FLAG_VIDEO = f AND FLAG_VIDEO"
  by (simp add: FLAG_AUDIO_def FLAG_VIDEO_def bit.conj_disj_distrib2)

lemma flag_or_video_audio: "(f OR FLAG_VIDEO) AND FLAG_AUDIO = f AND FLAG_AUDIO"
  by (simp add: FLAG_AUDIO_def FLAG_VIDEO_def bit.conj_disj_distrib2)

lemma flag_or_video_video: "(f OR FLAG_VIDEO) AND FLAG_VIDEO \<noteq> 0"
  by (simp add: FLAG_VIDEO_def bit.conj_disj_distrib2)

lemma flag_or_audio_audio: "(f OR FLAG_AUDIO) AND FLAG_AUDIO \<noteq> 0"
  by (simp add: FLAG_AUDIO_def bit.conj_disj_distrib2)

lemma flags_nonzero: "FLAG_VIDEO \<noteq> 0" "FLAG_AUDIO \<noteq> 0"
  by (simp_all add: FLAG_VIDEO_def FLAG_AUDIO_def)

lemma setup_video_fields:
  assumes "setup_video S pas asi (fp, w) = (fp', w')"
  shows "pvideo fp' = Some pas" and "videoinfo fp' = asi"
    and "paudio fp' = paudio fp" and "audioinfo fp' = audioinfo fp"
    and "audioformat fp' = audioformat fp" and "audioformatsize fp' = audioformatsize fp"
    and "pfile fp' = pfile fp" and "fileinfo fp' = fileinfo fp"
    and "flag fp' AND FLAG_AUDIO = flag fp AND FLAG_AUDIO"
    and "videoformat fp' \<noteq> None \<Longrightarrow> flag fp' AND FLAG_VIDEO \<noteq> 0"
    and "videoformat fp' = None \<Longrightarrow> flag fp' = flag fp"
    and "videoformat fp' = GlobalAlloc_result S (nalloc w) (Size_LONG (case AVIStreamFormatSize_result S (Some pas) of None \<Rightarrow> videoformatsize fp | Some m \<Rightarrow> m))"
  using assms
  by (auto simp: setup_video_def service_calls Let_def flag_or_video_audio flag_or_video_video flags_nonzero
      split: prod.splits if_splits option.splits)

lemma setup_audio_fields:
  assumes "setup_audio S pas asi (fp, w) = (fp', w')"
  shows "paudio fp' = Some pas" and "audioinfo fp' = asi"
    and "pvideo fp' = pvideo fp" and "videoinfo fp' = videoinfo fp"
    and "videoformat fp' = videoformat fp" and "videoformatsize fp' = videoformatsize fp"
    and "pfile fp' = pfile fp" and "fileinfo fp' = fileinfo fp"
    and "flag fp' AND FLAG_VIDEO = flag fp AND FLAG_VIDEO"
    and "videoformat fp \<noteq> None \<Longrightarrow> flag fp' AND FLAG_AUDIO \<noteq> 0"
    and "videoformat fp = None \<Longrightarrow> flag fp' = flag fp"
  using assms
  by (auto simp: setup_audio_def service_calls Let_def flag_or_audio_video flag_or_audio_audio flags_nonzero
      split: prod.splits if_splits option.splits)


lemma open_stream_pfile_fileinfo:
  "pfile (fst (open_stream S i (fp, w))) = pfile fp \<and>
   fileinfo (fst (open_stream S i (fp, w))) = fileinfo fp"
  by (simp add: open_stream_def setup_video_def setup_audio_def Let_def
      split: prod.splits option.splits)

lemma word_le_succ: "i < m \<Longrightarrow> i \<le> i + 1" for i m :: DWORD
  using unat_word_succ [of i m] by (simp add: word_le_nat_alt)

lemma word_less_succ_iff: "j < m \<Longrightarrow> k < j + 1 \<longleftrightarrow> k \<le> j" for j k m :: DWORD
  using unat_word_succ [of j m] by (simp add: word_less_nat_alt word_le_nat_alt less_Suc_eq_le)

lemma open_loop_invariant:
  assumes "I i (fp, w)" and "i \<le> dwStreams (fileinfo fp)"
    and "\<And>j fp' w'. I j (fp', w') \<Longrightarrow> i \<le> j \<Longrightarrow> j < dwStreams (fileinfo fp) \<Longrightarrow>
           fileinfo fp' = fileinfo fp \<Longrightarrow> pfile fp' = pfile fp \<Longrightarrow>
           I (j + 1) (open_stream S j (fp', w'))"
  shows "I (dwStreams (fileinfo fp)) (open_loop S i (fp, w)) \<and>
         fileinfo (fst (open_loop S i (fp, w))) = fileinfo fp \<and>
         pfile (fst (open_loop S i (fp, w))) = pfile fp"
  using assms
proof (induction S i "(fp, w)" arbitrary: fp w rule: open_loop.induct)
  case (1 S i fp w)
  show ?case
  proof (cases "i < dwStreams (fileinfo fp)")
    case False
    with "1.prems"(2) have eq: "dwStreams (fileinfo fp) = i"
      by simp
    have "open_loop S i (fp, w) = (fp, w)"
      using False by (subst open_loop.simps) simp
    with "1.prems"(1) eq show ?thesis
      by simp
  next
    case True
    obtain fp1 w1 where o: "open_stream S i (fp, w) = (fp1, w1)"
      by (cases "open_stream S i (fp, w)")
    have same: "fileinfo fp1 = fileinfo fp" "pfile fp1 = pfile fp"
      using open_stream_pfile_fileinfo [of S i fp w] o by simp_all
    have I1: "I (i + 1) (fp1, w1)"
      using "1.prems"(3) [OF "1.prems"(1) order_refl True refl refl] o by simp
    have le: "i + 1 \<le> dwStreams (fileinfo fp1)"
      using True same by (simp add: inc_le)
    have step: "\<And>j fp' w'. I j (fp', w') \<Longrightarrow> i + 1 \<le> j \<Longrightarrow> j < dwStreams (fileinfo fp1) \<Longrightarrow>
           fileinfo fp' = fileinfo fp1 \<Longrightarrow> pfile fp' = pfile fp1 \<Longrightarrow>
           I (j + 1) (open_stream S j (fp', w'))"
    proof -
      fix j fp' w'
      assume a: "I j (fp', w')" "i + 1 \<le> j" "j < dwStreams (fileinfo fp1)"
        "fileinfo fp' = fileinfo fp1" "pfile fp' = pfile fp1"
      have "i \<le> j"
        using word_le_succ [OF True] a(2) by (rule order_trans)
      then show "I (j + 1) (open_stream S j (fp', w'))"
        using "1.prems"(3) [of j fp' w'] a same by simp
    qed
    have "I (dwStreams (fileinfo fp1)) (open_loop S (i + 1) (fp1, w1)) \<and>
         fileinfo (fst (open_loop S (i + 1) (fp1, w1))) = fileinfo fp1 \<and>
         pfile (fst (open_loop S (i + 1) (fp1, w1))) = pfile fp1"
      by (rule "1.hyps" [OF True o I1 le step])
    moreover have "open_loop S i (fp, w) = open_loop S (i + 1) (fp1, w1)"
      using True o by (subst open_loop.simps) simp
    ultimately show ?thesis
      using same by simp
  qed
qed


lemma open_stream_cases:
  obtains
    (video) pas w1 where "AVIFileGetStream_result S (pfile fp) i = Some pas"
      and "stream_type S (pfile fp) i = Some streamtypeVIDEO"
      and "open_stream S i (fp, w) = setup_video S pas (AVIStreamInfo_result S (Some pas)) (fp, w1)"
  | (audio) pas w1 where "AVIFileGetStream_result S (pfile fp) i = Some pas"
      and "stream_type S (pfile fp) i = Some streamtypeAUDIO"
      and "open_stream S i (fp, w) = setup_audio S pas (AVIStreamInfo_result S (Some pas)) (fp, w1)"
  | (other) w1 where "stream_type S (pfile fp) i \<noteq> Some streamtypeVIDEO"
      and "stream_type S (pfile fp) i \<noteq> Some streamtypeAUDIO"
      and "open_stream S i (fp, w) = (fp, w1)"
proof (cases "AVIFileGetStream_result S (pfile fp) i")
  case None
  then show ?thesis
    by (intro other [of "emit (EvAVIFileGetStream (pfile fp) i None) w"])
       (simp_all add: stream_type_def open_stream_def AVIFileGetStream_def Let_def)
next
  case (Some pas)
  let ?ty = "fccType (AVIStreamInfo_result S (Some pas))"
  let ?w1 = "emit (EvAVIStreamInfo (Some pas)) (emit (EvAVIFileGetStream (pfile fp) i (Some pas)) w)"
  consider "?ty = streamtypeVIDEO" | "?ty \<noteq> streamtypeVIDEO" "?ty = streamtypeAUDIO"
    | "?ty \<noteq> streamtypeVIDEO" "?ty \<noteq> streamtypeAUDIO"
    by blast
  then show ?thesis
  proof cases
    case 1
    with Some show ?thesis
      by (intro video [of pas ?w1])
         (simp_all add: stream_type_def open_stream_def AVIFileGetStream_def AVIStreamInfo_def Let_def streamtypes_differ)
  next
    case 2
    with Some show ?thesis
      by (intro audio [of pas ?w1])
         (simp_all add: stream_type_def open_stream_def AVIFileGetStream_def AVIStreamInfo_def Let_def streamtypes_differ)
  next
    case 3
    with Some show ?thesis
      by (intro other [of "AVIStreamRelease (Some pas) ?w1"])
         (simp_all add: stream_type_def open_stream_def AVIFileGetStream_def AVIStreamInfo_def Let_def streamtypes_differ)
  qed
qed


lemma open_loop_unwritten:
  fixes proj :: "FILE_HANDLE \<Rightarrow> 'a"
  assumes step: "\<And>j fp w. j < dwStreams (fileinfo fp0) \<Longrightarrow> pfile fp = pfile fp0 \<Longrightarrow> \<not> T j \<Longrightarrow>
            proj (fst (open_stream S j (fp, w))) = proj fp"
    and none: "\<forall>k. k < dwStreams (fileinfo fp0) \<longrightarrow> \<not> T k"
  shows "proj (fst (open_loop S 0 (fp0, w0))) = proj fp0"
proof -
  define I where "I = (\<lambda>(j :: DWORD) (fw :: FILE_HANDLE \<times> world). proj (fst fw) = proj fp0)"
  have "I (dwStreams (fileinfo fp0)) (open_loop S 0 (fp0, w0)) \<and>
         fileinfo (fst (open_loop S 0 (fp0, w0))) = fileinfo fp0 \<and>
         pfile (fst (open_loop S 0 (fp0, w0))) = pfile fp0"
  proof (rule open_loop_invariant)
    show "I 0 (fp0, w0)"
      by (simp add: I_def)
    show "0 \<le> dwStreams (fileinfo fp0)"
      by simp
  next
    fix j fp' w'
    assume "I j (fp', w')" "j < dwStreams (fileinfo fp0)" "pfile fp' = pfile fp0"
    then show "I (j + 1) (open_stream S j (fp', w'))"
      using step [of j fp' w'] none by (simp add: I_def)
  qed
  then show ?thesis
    by (simp add: I_def)
qed

lemma open_loop_last_write:
  fixes proj :: "FILE_HANDLE \<Rightarrow> 'a"
  assumes step: "\<And>j fp w. j < dwStreams (fileinfo fp0) \<Longrightarrow> pfile fp = pfile fp0 \<Longrightarrow>
            proj (fst (open_stream S j (fp, w))) = (if T j then v j else proj fp)"
    and k: "k < dwStreams (fileinfo fp0)" "T k"
    and last: "\<forall>m. k < m \<and> m < dwStreams (fileinfo fp0) \<longrightarrow> \<not> T m"
  shows "proj (fst (open_loop S 0 (fp0, w0))) = v k"
proof -
  define I where "I = (\<lambda>(j :: DWORD) (fw :: FILE_HANDLE \<times> world).
      \<forall>k. k < j \<and> T k \<and> (\<forall>m. k < m \<and> m < j \<longrightarrow> \<not> T m) \<longrightarrow> proj (fst fw) = v k)"
  have "I (dwStreams (fileinfo fp0)) (open_loop S 0 (fp0, w0)) \<and>
         fileinfo (fst (open_loop S 0 (fp0, w0))) = fileinfo fp0 \<and>
         pfile (fst (open_loop S 0 (fp0, w0))) = pfile fp0"
  proof (rule open_loop_invariant)
    show "I 0 (fp0, w0)"
      by (simp add: I_def)
    show "0 \<le> dwStreams (fileinfo fp0)"
      by simp
  next
    fix j fp' w'
    assume inv: "I j (fp', w')" and j: "j < dwStreams (fileinfo fp0)" and pf: "pfile fp' = pfile fp0"
    have eq: "proj (fst (open_stream S j (fp', w'))) = (if T j then v j else proj fp')"
      by (rule step [OF j pf])
    show "I (j + 1) (open_stream S j (fp', w'))"
      unfolding I_def
    proof (intro allI impI, elim conjE)
      fix k'
      assume k': "k' < j + 1" "T k'" and btw: "\<forall>m. k' < m \<and> m < j + 1 \<longrightarrow> \<not> T m"
      have le: "k' \<le> j"
        using k'(1) word_less_succ_iff [OF j] by simp
      have jj: "j < j + 1"
        using word_less_succ_iff [OF j, of j] by simp
      show "proj (fst (open_stream S j (fp', w'))) = v k'"
      proof (cases "T j")
        case True
        have "k' = j"
        proof (rule ccontr)
          assume "k' \<noteq> j"
          with le have "k' < j" by simp
          with btw jj True show False by blast
        qed
        with True eq show ?thesis by simp
      next
        case False
        with k'(2) le have lt: "k' < j"
          by (cases "k' = j") auto
        have "\<forall>m. k' < m \<and> m < j \<longrightarrow> \<not> T m"
        proof (intro allI impI)
          fix m assume m: "k' < m \<and> m < j"
          then have "m < j + 1"
            using jj by (meson less_trans)
          with m btw show "\<not> T m" by blast
        qed
        with inv lt k'(2) have "proj fp' = v k'"
          by (simp add: I_def)
        with False eq show ?thesis by simp
      qed
    qed
  qed
  then show ?thesis
    using k last by (simp add: I_def)
qed


lemmas setup_video_fst = setup_video_fields [OF prod.collapse [symmetric]]
lemmas setup_audio_fst = setup_audio_fields [OF prod.collapse [symmetric]]

lemma open_stream_video_view:
  "pvideo (fst (open_stream S j (fp, w))) =
     (if stream_type S (pfile fp) j = Some streamtypeVIDEO
      then AVIFileGetStream_result S (pfile fp) j else pvideo fp)"
  "videoinfo (fst (open_stream S j (fp, w))) =
     (if stream_type S (pfile fp) j = Some streamtypeVIDEO
      then AVIStreamInfo_result S (AVIFileGetStream_result S (pfile fp) j) else videoinfo fp)"
proof -
  show "pvideo (fst (open_stream S j (fp, w))) =
     (if stream_type S (pfile fp) j = Some streamtypeVIDEO
      then AVIFileGetStream_result S (pfile fp) j else pvideo fp)"
    by (cases rule: open_stream_cases [of S fp j w])
       (simp_all add: setup_video_fst(1) setup_audio_fst(3) streamtypes_differ)
  show "videoinfo (fst (open_stream S j (fp, w))) =
     (if stream_type S (pfile fp) j = Some streamtypeVIDEO
      then AVIStreamInfo_result S (AVIFileGetStream_result S (pfile fp) j) else videoinfo fp)"
    by (cases rule: open_stream_cases [of S fp j w])
       (simp_all add: setup_video_fst(2) setup_audio_fst(4) streamtypes_differ)
qed


lemma open_stream_audio_view:
  "paudio (fst (open_stream S j (fp, w))) =
     (if stream_type S (pfile fp) j = Some streamtypeAUDIO
      then AVIFileGetStream_result S (pfile fp) j else paudio fp)"
  "audioinfo (fst (open_stream S j (fp, w))) =
     (if stream_type S (pfile fp) j = Some streamtypeAUDIO
      then AVIStreamInfo_result S (AVIFileGetStream_result S (pfile fp) j) else audioinfo fp)"
proof -
  show "paudio (fst (open_stream S j (fp, w))) =
     (if stream_type S (pfile fp) j = Some streamtypeAUDIO
      then AVIFileGetStream_result S (pfile fp) j else paudio fp)"
    by (cases rule: open_stream_cases [of S fp j w])
       (simp_all add: setup_video_fst(3) setup_audio_fst(1) streamtypes_differ)
  show "audioinfo (fst (open_stream S j (fp, w))) =
     (if stream_type S (pfile fp) j = Some streamtypeAUDIO
      then AVIStreamInfo_result S (AVIFileGetStream_result S (pfile fp) j) else audioinfo fp)"
    by (cases rule: open_stream_cases [of S fp j w])
       (simp_all add: setup_video_fst(4) setup_audio_fst(2) streamtypes_differ)
qed

lemma open_stream_not_video:
  assumes "stream_type S (pfile fp) j \<noteq> Some streamtypeVIDEO"
  shows "videoformat (fst (open_stream S j (fp, w))) = videoformat fp"
    and "flag (fst (open_stream S j (fp, w))) AND FLAG_VIDEO = flag fp AND FLAG_VIDEO"
proof -
  show "videoformat (fst (open_stream S j (fp, w))) = videoformat fp"
    using assms
    by (cases rule: open_stream_cases [of S fp j w]) (simp_all add: setup_audio_fst(5))
  show "flag (fst (open_stream S j (fp, w))) AND FLAG_VIDEO = flag fp AND FLAG_VIDEO"
    using assms
    by (cases rule: open_stream_cases [of S fp j w]) (simp_all add: setup_audio_fst(9))
qed

lemma open_stream_not_audio:
  assumes "stream_type S (pfile fp) j \<noteq> Some streamtypeAUDIO"
  shows "audioformat (fst (open_stream S j (fp, w))) = audioformat fp"
    and "flag (fst (open_stream S j (fp, w))) AND FLAG_AUDIO = flag fp AND FLAG_AUDIO"
proof -
  show "audioformat (fst (open_stream S j (fp, w))) = audioformat fp"
    using assms
    by (cases rule: open_stream_cases [of S fp j w]) (simp_all add: setup_video_fst(5))
  show "flag (fst (open_stream S j (fp, w))) AND FLAG_AUDIO = flag fp AND FLAG_AUDIO"
    using assms
    by (cases rule: open_stream_cases [of S fp j w]) (simp_all add: setup_video_fst(9))
qed

lemma open_stream_is_video:
  assumes "stream_type S (pfile fp) j = Some streamtypeVIDEO"
  shows "videoformat (fst (open_stream S j (fp, w))) \<noteq> None \<or>
         flag (fst (open_stream S j (fp, w))) = flag fp"
proof (cases rule: open_stream_cases [of S fp j w])
  case (video pas w1)
  show ?thesis
    using setup_video_fst(11) [of S pas "AVIStreamInfo_result S (Some pas)" fp w1] video(3)
    by auto
next
  case (audio pas w1)
  with assms show ?thesis
    by (simp add: streamtypes_differ)
next
  case (other w1)
  with assms show ?thesis
    by simp
qed


lemma stream_type_Some_handle:
  "stream_type S pf j = Some ty \<Longrightarrow> AVIFileGetStream_result S pf j \<noteq> None"
  by (auto simp: stream_type_def split: option.splits)

lemma open_loop_last_video:
  assumes "k < dwStreams (fileinfo fp0)"
    and "stream_type S (pfile fp0) k = Some streamtypeVIDEO"
    and "\<forall>m. k < m \<and> m < dwStreams (fileinfo fp0) \<longrightarrow>
           stream_type S (pfile fp0) m \<noteq> Some streamtypeVIDEO"
  shows "pvideo (fst (open_loop S 0 (fp0, w0))) = AVIFileGetStream_result S (pfile fp0) k"
    and "videoinfo (fst (open_loop S 0 (fp0, w0))) =
           AVIStreamInfo_result S (AVIFileGetStream_result S (pfile fp0) k)"
proof -
  show "pvideo (fst (open_loop S 0 (fp0, w0))) = AVIFileGetStream_result S (pfile fp0) k"
    by (rule open_loop_last_write
          [where T = "\<lambda>j. stream_type S (pfile fp0) j = Some streamtypeVIDEO"
             and v = "\<lambda>j. AVIFileGetStream_result S (pfile fp0) j", OF _ assms(1)])
       (use assms in \<open>simp_all add: open_stream_video_view\<close>)
  show "videoinfo (fst (open_loop S 0 (fp0, w0))) =
           AVIStreamInfo_result S (AVIFileGetStream_result S (pfile fp0) k)"
    by (rule open_loop_last_write
          [where T = "\<lambda>j. stream_type S (pfile fp0) j = Some streamtypeVIDEO"
             and v = "\<lambda>j. AVIStreamInfo_result S (AVIFileGetStream_result S (pfile fp0) j)",
           OF _ assms(1)])
       (use assms in \<open>simp_all add: open_stream_video_view\<close>)
qed

lemma open_loop_last_audio:
  assumes "k < dwStreams (fileinfo fp0)"
    and "stream_type S (pfile fp0) k = Some streamtypeAUDIO"
    and "\<forall>m. k < m \<and> m < dwStreams (fileinfo fp0) \<longrightarrow>
           stream_type S (pfile fp0) m \<noteq> Some streamtypeAUDIO"
  shows "paudio (fst (open_loop S 0 (fp0, w0))) = AVIFileGetStream_result S (pfile fp0) k"
    and "audioinfo (fst (open_loop S 0 (fp0, w0))) =
           AVIStreamInfo_result S (AVIFileGetStream_result S (pfile fp0) k)"
proof -
  show "paudio (fst (open_loop S 0 (fp0, w0))) = AVIFileGetStream_result S (pfile fp0) k"
    by (rule open_loop_last_write
          [where T = "\<lambda>j. stream_type S (pfile fp0) j = Some streamtypeAUDIO"
             and v = "\<lambda>j. AVIFileGetStream_result S (pfile fp0) j", OF _ assms(1)])
       (use assms in \<open>simp_all add: open_stream_audio_view\<close>)
  show "audioinfo (fst (open_loop S 0 (fp0, w0))) =
           AVIStreamInfo_result S (AVIFileGetStream_result S (pfile fp0) k)"
    by (rule open_loop_last_write
          [where T = "\<lambda>j. stream_type S (pfile fp0) j = Some streamtypeAUDIO"
             and v = "\<lambda>j. AVIStreamInfo_result S (AVIFileGetStream_result S (pfile fp0) j)",
           OF _ assms(1)])
       (use assms in \<open>simp_all add: open_stream_audio_view\<close>)
qed

lemma open_loop_no_video:
  assumes "\<forall>k. k < dwStreams (fileinfo fp0) \<longrightarrow>
             stream_type S (pfile fp0) k \<noteq> Some streamtypeVIDEO"
  shows "pvideo (fst (open_loop S 0 (fp0, w0))) = pvideo fp0"
    and "videoformat (fst (open_loop S 0 (fp0, w0))) = videoformat fp0"
    and "flag (fst (open_loop S 0 (fp0, w0))) AND FLAG_VIDEO = flag fp0 AND FLAG_VIDEO"
proof -
  note r = open_loop_unwritten
    [where T = "\<lambda>j. stream_type S (pfile fp0) j = Some streamtypeVIDEO", OF _ assms]
  show "pvideo (fst (open_loop S 0 (fp0, w0))) = pvideo fp0"
    by (rule r) (simp add: open_stream_video_view)
  show "videoformat (fst (open_loop S 0 (fp0, w0))) = videoformat fp0"
    by (rule r) (simp add: open_stream_not_video)
  show "flag (fst (open_loop S 0 (fp0, w0))) AND FLAG_VIDEO = flag fp0 AND FLAG_VIDEO"
    by (rule r [where proj = "\<lambda>fp. flag fp AND FLAG_VIDEO"]) (simp add: open_stream_not_video)
qed

lemma open_loop_no_audio:
  assumes "\<forall>k. k < dwStreams (fileinfo fp0) \<longrightarrow>
             stream_type S (pfile fp0) k \<noteq> Some streamtypeAUDIO"
  shows "paudio (fst (open_loop S 0 (fp0, w0))) = paudio fp0"
    and "audioformat (fst (open_loop S 0 (fp0, w0))) = audioformat fp0"
    and "flag (fst (open_loop S 0 (fp0, w0))) AND FLAG_AUDIO = flag fp0 AND FLAG_AUDIO"
proof -
  note r = open_loop_unwritten
    [where T = "\<lambda>j. stream_type S (pfile fp0) j = Some streamtypeAUDIO", OF _ assms]
  show "paudio (fst (open_loop S 0 (fp0, w0))) = paudio fp0"
    by (rule r) (simp add: open_stream_audio_view)
  show "audioformat (fst (open_loop S 0 (fp0, w0))) = audioformat fp0"
    by (rule r) (simp add: open_stream_not_audio)
  show "flag (fst (open_loop S 0 (fp0, w0))) AND FLAG_AUDIO = flag fp0 AND FLAG_AUDIO"
    by (rule r [where proj = "\<lambda>fp. flag fp AND FLAG_AUDIO"]) (simp add: open_stream_not_audio)
qed


lemma open_loop_flag_handles:
  assumes "flag fp0 AND FLAG_VIDEO \<noteq> 0 \<longrightarrow> pvideo fp0 \<noteq> None"
    and "flag fp0 AND FLAG_AUDIO \<noteq> 0 \<longrightarrow> paudio fp0 \<noteq> None"
  shows "(flag (fst (open_loop S 0 (fp0, w0))) AND FLAG_VIDEO \<noteq> 0 \<longrightarrow>
            pvideo (fst (open_loop S 0 (fp0, w0))) \<noteq> None) \<and>
         (flag (fst (open_loop S 0 (fp0, w0))) AND FLAG_AUDIO \<noteq> 0 \<longrightarrow>
            paudio (fst (open_loop S 0 (fp0, w0))) \<noteq> None)"
proof -
  define I where "I = (\<lambda>(j :: DWORD) (fw :: FILE_HANDLE \<times> world).
      (flag (fst fw) AND FLAG_VIDEO \<noteq> 0 \<longrightarrow> pvideo (fst fw) \<noteq> None) \<and>
      (flag (fst fw) AND FLAG_AUDIO \<noteq> 0 \<longrightarrow> paudio (fst fw) \<noteq> None))"
  have "I (dwStreams (fileinfo fp0)) (open_loop S 0 (fp0, w0)) \<and>
         fileinfo (fst (open_loop S 0 (fp0, w0))) = fileinfo fp0 \<and>
         pfile (fst (open_loop S 0 (fp0, w0))) = pfile fp0"
  proof (rule open_loop_invariant)
    show "I 0 (fp0, w0)"
      using assms by (simp add: I_def)
    show "0 \<le> dwStreams (fileinfo fp0)"
      by simp
  next
    fix j fp' w'
    assume inv: "I j (fp', w')"
    let ?fp1 = "fst (open_stream S j (fp', w'))"
    have v: "flag ?fp1 AND FLAG_VIDEO \<noteq> 0 \<longrightarrow> pvideo ?fp1 \<noteq> None"
    proof (cases "stream_type S (pfile fp') j = Some streamtypeVIDEO")
      case True
      then show ?thesis
        by (simp add: open_stream_video_view stream_type_Some_handle)
    next
      case False
      with inv show ?thesis
        by (simp add: open_stream_video_view open_stream_not_video I_def)
    qed
    have a: "flag ?fp1 AND FLAG_AUDIO \<noteq> 0 \<longrightarrow> paudio ?fp1 \<noteq> None"
    proof (cases "stream_type S (pfile fp') j = Some streamtypeAUDIO")
      case True
      then show ?thesis
        by (simp add: open_stream_audio_view stream_type_Some_handle)
    next
      case False
      with inv show ?thesis
        by (simp add: open_stream_audio_view open_stream_not_audio I_def)
    qed
    from v a show "I (j + 1) (open_stream S j (fp', w'))"
      by (simp add: I_def)
  qed
  then show ?thesis
    by (simp add: I_def)
qed

lemma open_loop_single_video:
  assumes one: "\<forall>j k. j < dwStreams (fileinfo fp0) \<and> k < dwStreams (fileinfo fp0) \<and>
             stream_type S (pfile fp0) j = Some streamtypeVIDEO \<and>
             stream_type S (pfile fp0) k = Some streamtypeVIDEO \<longrightarrow> j = k"
    and zero: "flag fp0 AND FLAG_VIDEO = 0"
  shows "flag (fst (open_loop S 0 (fp0, w0))) AND FLAG_VIDEO \<noteq> 0 \<longrightarrow>
           videoformat (fst (open_loop S 0 (fp0, w0))) \<noteq> None"
proof -
  define V where "V = (\<lambda>j. stream_type S (pfile fp0) j = Some streamtypeVIDEO)"
  define I where "I = (\<lambda>(j :: DWORD) (fw :: FILE_HANDLE \<times> world).
      (flag (fst fw) AND FLAG_VIDEO \<noteq> 0 \<longrightarrow> videoformat (fst fw) \<noteq> None) \<and>
      ((\<forall>k. k < j \<longrightarrow> \<not> V k) \<longrightarrow> flag (fst fw) AND FLAG_VIDEO = 0))"
  have "I (dwStreams (fileinfo fp0)) (open_loop S 0 (fp0, w0)) \<and>
         fileinfo (fst (open_loop S 0 (fp0, w0))) = fileinfo fp0 \<and>
         pfile (fst (open_loop S 0 (fp0, w0))) = pfile fp0"
  proof (rule open_loop_invariant)
    show "I 0 (fp0, w0)"
      using zero by (simp add: I_def)
    show "0 \<le> dwStreams (fileinfo fp0)"
      by simp
  next
    fix j fp' w'
    assume inv: "I j (fp', w')" and j: "j < dwStreams (fileinfo fp0)"
      and pf: "pfile fp' = pfile fp0"
    let ?fp1 = "fst (open_stream S j (fp', w'))"
    have jj: "j < j + 1"
      using word_less_succ_iff [OF j, of j] by simp
    show "I (j + 1) (open_stream S j (fp', w'))"
    proof (cases "V j")
      case True
      have "\<forall>k. k < j \<longrightarrow> \<not> V k"
      proof (intro allI impI)
        fix k assume k: "k < j"
        then have "k < dwStreams (fileinfo fp0)"
          using j by (rule less_trans)
        with one j k True show "\<not> V k"
          unfolding V_def by (metis less_irrefl)
      qed
      with inv have z: "flag fp' AND FLAG_VIDEO = 0"
        by (simp add: I_def)
      have "videoformat ?fp1 \<noteq> None \<or> flag ?fp1 = flag fp'"
        using open_stream_is_video [of S fp' j w'] True pf by (simp add: V_def)
      with z have 1: "flag ?fp1 AND FLAG_VIDEO \<noteq> 0 \<longrightarrow> videoformat ?fp1 \<noteq> None"
        by auto
      have 2: "\<not> (\<forall>k. k < j + 1 \<longrightarrow> \<not> V k)"
        using True jj by blast
      from 1 2 show ?thesis
        unfolding I_def by auto
    next
      case False
      then have nv: "stream_type S (pfile fp') j \<noteq> Some streamtypeVIDEO"
        using pf by (simp add: V_def)
      have 1: "flag ?fp1 AND FLAG_VIDEO \<noteq> 0 \<longrightarrow> videoformat ?fp1 \<noteq> None"
        using inv by (simp add: open_stream_not_video [OF nv] I_def)
      have 2: "(\<forall>k. k < j + 1 \<longrightarrow> \<not> V k) \<longrightarrow> flag ?fp1 AND FLAG_VIDEO = 0"
      proof
        assume a: "\<forall>k. k < j + 1 \<longrightarrow> \<not> V k"
        have "\<forall>k. k < j \<longrightarrow> \<not> V k"
          using a jj by (meson less_trans)
        with inv show "flag ?fp1 AND FLAG_VIDEO = 0"
          by (simp add: open_stream_not_video [OF nv] I_def)
      qed
      from 1 2 show ?thesis
        by (simp add: I_def)
    qed
  qed
  then show ?thesis
    by (simp add: I_def)
qed

lemma func_open_success:
  assumes "func_open S w file = (Some a, w')"
  obtains (no_info) pf where "AVIFileOpen_result S file = Some pf"
      and "AVIFileInfo_result S (Some pf) = None"
      and "sessions w' a = Some (zero_FILE_HANDLE\<lparr>pfile := Some pf\<rparr>)"
      and "trace w' = trace w @ [EvGlobalAlloc Sizeof_FILE_HANDLE (Some a),
                                 EvAVIFileOpen file (Some pf), EvAVIFileInfo (Some pf)]"
  | (loop) pf fi w1 where "AVIFileOpen_result S file = Some pf"
      and "AVIFileInfo_result S (Some pf) = Some fi"
      and "sessions w' a =
            Some (fst (open_loop S 0 (zero_FILE_HANDLE\<lparr>pfile := Some pf, fileinfo := fi\<rparr>, w1)))"
      and "trace w' =
            trace (snd (open_loop S 0 (zero_FILE_HANDLE\<lparr>pfile := Some pf, fileinfo := fi\<rparr>, w1)))"
      and "trace w1 = trace w @ [EvGlobalAlloc Sizeof_FILE_HANDLE (Some a),
                                 EvAVIFileOpen file (Some pf), EvAVIFileInfo (Some pf)]"
proof -
  define w1 where "w1 = w\<lparr>nalloc := Suc (nalloc w),
      trace := trace w @ [EvGlobalAlloc Sizeof_FILE_HANDLE (Some a),
                          EvAVIFileOpen file (AVIFileOpen_result S file),
                          EvAVIFileInfo (AVIFileOpen_result S file)]\<rparr>"
  from assms obtain pf where pf: "AVIFileOpen_result S file = Some pf"
    by (auto simp: func_open_def service_calls Let_def split: option.splits prod.splits)
  show thesis
  proof (cases "AVIFileInfo_result S (Some pf)")
    case None
    with assms pf have "sessions w' a = Some (zero_FILE_HANDLE\<lparr>pfile := Some pf\<rparr>)"
      and "trace w' = trace w @ [EvGlobalAlloc Sizeof_FILE_HANDLE (Some a),
                                 EvAVIFileOpen file (Some pf), EvAVIFileInfo (Some pf)]"
      by (auto simp: func_open_def service_calls Let_def split: option.splits prod.splits)
    with pf None show thesis
      by (intro no_info [of pf])
  next
    case (Some fi)
    with assms pf have "sessions w' a =
        Some (fst (open_loop S 0 (zero_FILE_HANDLE\<lparr>pfile := Some pf, fileinfo := fi\<rparr>, w1)))"
      and "trace w' =
        trace (snd (open_loop S 0 (zero_FILE_HANDLE\<lparr>pfile := Some pf, fileinfo := fi\<rparr>, w1)))"
      by (auto simp: func_open_def service_calls Let_def w1_def split: option.splits prod.splits)
    moreover have "trace w1 = trace w @ [EvGlobalAlloc Sizeof_FILE_HANDLE (Some a),
                                 EvAVIFileOpen file (Some pf), EvAVIFileInfo (Some pf)]"
      by (simp add: w1_def pf)
    ultimately show thesis
      using pf Some by (intro loop [of pf fi w1])
  qed
qed


lemma setup_audio_format:
  assumes "setup_audio S pas asi (fp, w) = (fp', w')"
  shows "audioformat fp' = GlobalAlloc_result S (nalloc w) (Size_LONG (case AVIStreamFormatSize_result S (Some pas) of None \<Rightarrow> audioformatsize fp | Some m \<Rightarrow> m))"
  using assms
  by (auto simp: setup_audio_def service_calls Let_def split: prod.splits if_splits option.splits)

lemma open_stream_video_ok:
  assumes ok: "\<forall>c req. GlobalAlloc_result S c req \<noteq> None"
    and "stream_type S (pfile fp) j = Some streamtypeVIDEO"
  shows "videoformat (fst (open_stream S j (fp, w))) \<noteq> None"
    and "flag (fst (open_stream S j (fp, w))) AND FLAG_VIDEO \<noteq> 0"
proof -
  show f: "videoformat (fst (open_stream S j (fp, w))) \<noteq> None"
  proof (cases rule: open_stream_cases [of S fp j w])
    case (video pas w1)
    show ?thesis
      using setup_video_fst(12) [of S pas "AVIStreamInfo_result S (Some pas)" fp w1] video(3) ok
      by simp
  next
    case (audio pas w1)
    with assms(2) show ?thesis
      by (simp add: streamtypes_differ)
  next
    case (other w1)
    with assms(2) show ?thesis
      by simp
  qed
  show "flag (fst (open_stream S j (fp, w))) AND FLAG_VIDEO \<noteq> 0"
  proof (cases rule: open_stream_cases [of S fp j w])
    case (video pas w1)
    show ?thesis
      using setup_video_fst(10) [of S pas "AVIStreamInfo_result S (Some pas)" fp w1] video(3) f
      by simp
  next
    case (audio pas w1)
    with assms(2) show ?thesis
      by (simp add: streamtypes_differ)
  next
    case (other w1)
    with assms(2) show ?thesis
      by simp
  qed
qed

lemma open_stream_audio_ok:
  assumes ok: "\<forall>c req. GlobalAlloc_result S c req \<noteq> None"
    and "stream_type S (pfile fp) j = Some streamtypeAUDIO"
    and "videoformat fp \<noteq> None"
  shows "audioformat (fst (open_stream S j (fp, w))) \<noteq> None"
    and "flag (fst (open_stream S j (fp, w))) AND FLAG_AUDIO \<noteq> 0"
proof -
  show "audioformat (fst (open_stream S j (fp, w))) \<noteq> None"
  proof (cases rule: open_stream_cases [of S fp j w])
    case (video pas w1)
    with assms(2) show ?thesis
      by (simp add: streamtypes_differ)
  next
    case (audio pas w1)
    show ?thesis
      using setup_audio_format [OF prod.collapse [symmetric], of S pas "AVIStreamInfo_result S (Some pas)" fp w1]
        audio(3) ok
      by simp
  next
    case (other w1)
    with assms(2) show ?thesis
      by simp
  qed
  show "flag (fst (open_stream S j (fp, w))) AND FLAG_AUDIO \<noteq> 0"
  proof (cases rule: open_stream_cases [of S fp j w])
    case (video pas w1)
    with assms(2) show ?thesis
      by (simp add: streamtypes_differ)
  next
    case (audio pas w1)
    show ?thesis
      using setup_audio_fst(10) [of fp S pas "AVIStreamInfo_result S (Some pas)" w1] audio(3) assms(3)
      by simp
  next
    case (other w1)
    with assms(2) show ?thesis
      by simp
  qed
qed

lemma open_stream_releases_audio:
  assumes "\<forall>k req. GlobalAlloc_result S k req \<noteq> None"
  shows "\<exists>evs. trace (snd (open_stream S j (fp, w))) = trace w @ evs \<and>
           (\<forall>h. EvAVIStreamRelease h \<in> set evs \<longrightarrow>
                h = AVIFileGetStream_result S (pfile fp) j \<and>
                stream_type S (pfile fp) j \<noteq> Some streamtypeVIDEO \<and>
                (stream_type S (pfile fp) j = Some streamtypeAUDIO \<longrightarrow> videoformat fp = None))"
  using assms
  by (auto simp: open_stream_def setup_video_def setup_audio_def service_calls stream_type_def
      Let_def streamtypes_differ split: option.splits prod.splits)


lemma open_loop_kept:
  assumes ok: "\<forall>c req. GlobalAlloc_result S c req \<noteq> None"
  shows "((\<exists>k. k < dwStreams (fileinfo fp0) \<and> stream_type S (pfile fp0) k = Some streamtypeVIDEO) \<longrightarrow>
            flag (fst (open_loop S 0 (fp0, w0))) AND FLAG_VIDEO \<noteq> 0 \<and>
            videoformat (fst (open_loop S 0 (fp0, w0))) \<noteq> None) \<and>
         ((\<forall>j. j < dwStreams (fileinfo fp0) \<and> stream_type S (pfile fp0) j = Some streamtypeAUDIO \<longrightarrow>
               (\<exists>v. v < j \<and> stream_type S (pfile fp0) v = Some streamtypeVIDEO)) \<longrightarrow>
          (\<exists>k. k < dwStreams (fileinfo fp0) \<and> stream_type S (pfile fp0) k = Some streamtypeAUDIO) \<longrightarrow>
            flag (fst (open_loop S 0 (fp0, w0))) AND FLAG_AUDIO \<noteq> 0 \<and>
            audioformat (fst (open_loop S 0 (fp0, w0))) \<noteq> None) \<and>
         (\<exists>evs. trace (snd (open_loop S 0 (fp0, w0))) = trace w0 @ evs \<and>
            (\<forall>h. EvAVIStreamRelease h \<in> set evs \<longrightarrow>
               (\<exists>j. j < dwStreams (fileinfo fp0) \<and> h = AVIFileGetStream_result S (pfile fp0) j \<and>
                    stream_type S (pfile fp0) j \<noteq> Some streamtypeVIDEO \<and>
                    (stream_type S (pfile fp0) j = Some streamtypeAUDIO \<longrightarrow>
                       (\<forall>v. v < j \<longrightarrow> stream_type S (pfile fp0) v \<noteq> Some streamtypeVIDEO)))))"
proof -
  define V where "V = (\<lambda>j. stream_type S (pfile fp0) j = Some streamtypeVIDEO)"
  define A where "A = (\<lambda>j. stream_type S (pfile fp0) j = Some streamtypeAUDIO)"
  define G where "G \<longleftrightarrow> (\<forall>j. j < dwStreams (fileinfo fp0) \<and> A j \<longrightarrow> (\<exists>v. v < j \<and> V v))"
  define R where "R = (\<lambda>h. \<exists>j. j < dwStreams (fileinfo fp0) \<and>
      h = AVIFileGetStream_result S (pfile fp0) j \<and> \<not> V j \<and> (A j \<longrightarrow> (\<forall>v. v < j \<longrightarrow> \<not> V v)))"
  define I where "I = (\<lambda>(j :: DWORD) (fw :: FILE_HANDLE \<times> world).
      ((\<exists>k. k < j \<and> V k) \<longrightarrow>
         flag (fst fw) AND FLAG_VIDEO \<noteq> 0 \<and> videoformat (fst fw) \<noteq> None) \<and>
      (G \<longrightarrow> (\<exists>k. k < j \<and> A k) \<longrightarrow>
         flag (fst fw) AND FLAG_AUDIO \<noteq> 0 \<and> audioformat (fst fw) \<noteq> None) \<and>
      (\<exists>evs. trace (snd fw) = trace w0 @ evs \<and> (\<forall>h. EvAVIStreamRelease h \<in> set evs \<longrightarrow> R h)))"
  have "I (dwStreams (fileinfo fp0)) (open_loop S 0 (fp0, w0)) \<and>
         fileinfo (fst (open_loop S 0 (fp0, w0))) = fileinfo fp0 \<and>
         pfile (fst (open_loop S 0 (fp0, w0))) = pfile fp0"
  proof (rule open_loop_invariant)
    show "I 0 (fp0, w0)"
      by (simp add: I_def)
    show "0 \<le> dwStreams (fileinfo fp0)"
      by simp
  next
    fix j fp' w'
    assume inv: "I j (fp', w')" and j: "j < dwStreams (fileinfo fp0)"
      and pf: "pfile fp' = pfile fp0"
    let ?fp1 = "fst (open_stream S j (fp', w'))"
    from inv have iv: "(\<exists>k. k < j \<and> V k) \<longrightarrow>
         flag fp' AND FLAG_VIDEO \<noteq> 0 \<and> videoformat fp' \<noteq> None"
      and ia: "G \<longrightarrow> (\<exists>k. k < j \<and> A k) \<longrightarrow>
         flag fp' AND FLAG_AUDIO \<noteq> 0 \<and> audioformat fp' \<noteq> None"
      by (simp_all add: I_def)
    from inv obtain evs where evs: "trace w' = trace w0 @ evs"
      "\<forall>h. EvAVIStreamRelease h \<in> set evs \<longrightarrow> R h"
      by (auto simp: I_def)
    have lt: "\<And>k. k < j + 1 \<longleftrightarrow> k < j \<or> k = j"
      using word_less_succ_iff [OF j] by (simp add: order_le_less)
    have 1: "(\<exists>k. k < j + 1 \<and> V k) \<longrightarrow>
         flag ?fp1 AND FLAG_VIDEO \<noteq> 0 \<and> videoformat ?fp1 \<noteq> None"
    proof (cases "V j")
      case True
      then have "stream_type S (pfile fp') j = Some streamtypeVIDEO"
        by (simp add: V_def pf)
      from open_stream_video_ok [OF ok this, of w'] show ?thesis
        by simp
    next
      case False
      then have nv: "stream_type S (pfile fp') j \<noteq> Some streamtypeVIDEO"
        by (simp add: V_def pf)
      from False have "(\<exists>k. k < j + 1 \<and> V k) \<longleftrightarrow> (\<exists>k. k < j \<and> V k)"
        by (auto simp: lt)
      with iv show ?thesis
        by (simp add: open_stream_not_video [OF nv])
    qed
    have 2: "G \<longrightarrow> (\<exists>k. k < j + 1 \<and> A k) \<longrightarrow>
         flag ?fp1 AND FLAG_AUDIO \<noteq> 0 \<and> audioformat ?fp1 \<noteq> None"
    proof (cases "A j")
      case True
      then have a: "stream_type S (pfile fp') j = Some streamtypeAUDIO"
        by (simp add: A_def pf)
      show ?thesis
      proof (intro impI)
        assume G
        with True j have "\<exists>v. v < j \<and> V v"
          by (simp add: G_def)
        with iv have "videoformat fp' \<noteq> None"
          by simp
        from open_stream_audio_ok [OF ok a this, of w']
        show "flag ?fp1 AND FLAG_AUDIO \<noteq> 0 \<and> audioformat ?fp1 \<noteq> None"
          by simp
      qed
    next
      case False
      then have na: "stream_type S (pfile fp') j \<noteq> Some streamtypeAUDIO"
        by (simp add: A_def pf)
      from False have "(\<exists>k. k < j + 1 \<and> A k) \<longleftrightarrow> (\<exists>k. k < j \<and> A k)"
        by (auto simp: lt)
      with ia show ?thesis
        by (simp add: open_stream_not_audio [OF na])
    qed
    from open_stream_releases_audio [OF ok, of j fp' w'] obtain evs'
      where evs': "trace (snd (open_stream S j (fp', w'))) = trace w' @ evs'"
        "\<forall>h. EvAVIStreamRelease h \<in> set evs' \<longrightarrow>
            h = AVIFileGetStream_result S (pfile fp') j \<and>
            stream_type S (pfile fp') j \<noteq> Some streamtypeVIDEO \<and>
            (stream_type S (pfile fp') j = Some streamtypeAUDIO \<longrightarrow> videoformat fp' = None)"
      by blast
    have "\<forall>h. EvAVIStreamRelease h \<in> set evs' \<longrightarrow> R h"
    proof (intro allI impI)
      fix h assume "EvAVIStreamRelease h \<in> set evs'"
      with evs'(2) have h: "h = AVIFileGetStream_result S (pfile fp0) j" "\<not> V j"
        "A j \<longrightarrow> videoformat fp' = None"
        by (simp_all add: V_def A_def pf)
      from h(3) iv have "A j \<longrightarrow> (\<forall>v. v < j \<longrightarrow> \<not> V v)"
        by blast
      with h(1,2) j show "R h"
        unfolding R_def by blast
    qed
    with evs evs'(1) have 3: "trace (snd (open_stream S j (fp', w'))) = trace w0 @ (evs @ evs') \<and>
        (\<forall>h. EvAVIStreamRelease h \<in> set (evs @ evs') \<longrightarrow> R h)"
      by auto
    from 1 2 3 show "I (j + 1) (open_stream S j (fp', w'))"
      unfolding I_def by blast
  qed
  then show ?thesis
    unfolding I_def G_def R_def V_def A_def by blast
qed

lemma stream_type_same_handle:
  "AVIFileGetStream_result S pf j = AVIFileGetStream_result S pf k \<Longrightarrow>
   stream_type S pf j = stream_type S pf k"
  by (simp add: stream_type_def)


lemma open_loop_pfile_fileinfo:
  "pfile (fst (open_loop S 0 (fp0, w0))) = pfile fp0"
  "fileinfo (fst (open_loop S 0 (fp0, w0))) = fileinfo fp0"
  using open_loop_invariant [of "\<lambda>_ _. True" 0 fp0 w0 S] by simp_all

lemma func_info_get_world: "func_info_get H w ih iip = Inr (b, iip', w') \<Longrightarrow> w' = w"
  by (auto simp: func_info_get_def Let_def split: sum.splits)

lemma func_read_video_sessions:
  "func_read_video S w ih frame buf = Inr (r, w') \<Longrightarrow> sessions w' = sessions w"
  by (auto simp: func_read_video_def service_calls Let_def
      split: sum.splits option.splits prod.splits)

lemma func_read_audio_sessions:
  "func_read_audio S w ih start len buf = Inr (r, w') \<Longrightarrow> sessions w' = sessions w"
  by (auto simp: func_read_audio_def service_calls Let_def
      split: sum.splits option.splits prod.splits)

lemma host_calls_sessions: "host_calls S cs w = Inr w' \<Longrightarrow> sessions w' = sessions w"
proof (induction cs arbitrary: w)
  case Nil
  then show ?case by simp
next
  case (Cons c cs)
  show ?case
  proof (cases c)
    case (Info_get H ih iip)
    with Cons.prems obtain b iip' w1 where 1: "func_info_get H w ih iip = Inr (b, iip', w1)"
      and 2: "host_calls S cs w1 = Inr w'"
      by (auto split: sum.splits)
    from func_info_get_world [OF 1] Cons.IH [OF 2] show ?thesis by simp
  next
    case (Read_video ih frame buf)
    with Cons.prems obtain r w1 where 1: "func_read_video S w ih frame buf = Inr (r, w1)"
      and 2: "host_calls S cs w1 = Inr w'"
      by (auto split: sum.splits)
    from func_read_video_sessions [OF 1] Cons.IH [OF 2] show ?thesis by simp
  next
    case (Read_audio ih start len buf)
    with Cons.prems obtain r w1 where 1: "func_read_audio S w ih start len buf = Inr (r, w1)"
      and 2: "host_calls S cs w1 = Inr w'"
      by (auto split: sum.splits)
    from func_read_audio_sessions [OF 1] Cons.IH [OF 2] show ?thesis by simp
  qed
qed

lemma func_info_get_video:
  assumes "sessions w a = Some fp" and "flag fp AND FLAG_VIDEO \<noteq> 0"
  shows "\<exists>iip'. func_info_get H w (Some a) iip = Inr (True, iip', w) \<and>
           rate iip' = dwRate (videoinfo fp) \<and> scale iip' = dwScale (videoinfo fp) \<and>
           n iip' = dwLength (videoinfo fp) \<and> format iip' = videoformat fp"
  using assms by (simp add: func_info_get_def deref_def Let_def)

lemma func_info_get_audio:
  assumes "sessions w a = Some fp" and "flag fp AND FLAG_AUDIO \<noteq> 0"
  shows "\<exists>iip'. func_info_get H w (Some a) iip = Inr (True, iip', w) \<and>
           audio_n iip' = dwLength (audioinfo fp) \<and> audio_format iip' = audioformat fp"
  using assms by (simp add: func_info_get_def deref_def Let_def)

lemma func_open_no_audio:
  assumes "func_open S w file = (Some a, w')" and "sessions w' a = Some fp"
    and "\<forall>k. k < dwStreams (fileinfo fp) \<longrightarrow> stream_type S (pfile fp) k \<noteq> Some streamtypeAUDIO"
  shows "paudio fp = None \<and> audioformat fp = None \<and> flag fp AND FLAG_AUDIO = 0"
  using assms(1)
proof (cases rule: func_open_success)
  case (no_info pf)
  with assms(2) have "fp = zero_FILE_HANDLE\<lparr>pfile := Some pf\<rparr>"
    by simp
  then show ?thesis
    by (simp add: zero_FILE_HANDLE_def)
next
  case (loop pf fi w1)
  define fp0 where "fp0 = zero_FILE_HANDLE\<lparr>pfile := Some pf, fileinfo := fi\<rparr>"
  have fp: "fp = fst (open_loop S 0 (fp0, w1))"
    using loop(3) assms(2) by (simp add: fp0_def)
  have z: "pfile fp = pfile fp0" "fileinfo fp = fileinfo fp0"
    by (simp_all add: fp open_loop_pfile_fileinfo)
  have "\<forall>k. k < dwStreams (fileinfo fp0) \<longrightarrow> stream_type S (pfile fp0) k \<noteq> Some streamtypeAUDIO"
    using assms(3) by (simp add: z)
  from open_loop_no_audio [OF this, of w1]
  have "paudio fp = paudio fp0 \<and> audioformat fp = audioformat fp0 \<and>
        flag fp AND FLAG_AUDIO = flag fp0 AND FLAG_AUDIO"
    by (simp add: fp [symmetric])
  then show ?thesis
    by (simp add: fp0_def zero_FILE_HANDLE_def)
qed

lemma func_open_no_video:
  assumes "func_open S w file = (Some a, w')" and "sessions w' a = Some fp"
    and "\<forall>k. k < dwStreams (fileinfo fp) \<longrightarrow> stream_type S (pfile fp) k \<noteq> Some streamtypeVIDEO"
  shows "pvideo fp = None \<and> videoformat fp = None \<and> flag fp AND FLAG_VIDEO = 0"
  using assms(1)
proof (cases rule: func_open_success)
  case (no_info pf)
  with assms(2) have "fp = zero_FILE_HANDLE\<lparr>pfile := Some pf\<rparr>"
    by simp
  then show ?thesis
    by (simp add: zero_FILE_HANDLE_def)
next
  case (loop pf fi w1)
  define fp0 where "fp0 = zero_FILE_HANDLE\<lparr>pfile := Some pf, fileinfo := fi\<rparr>"
  have fp: "fp = fst (open_loop S 0 (fp0, w1))"
    using loop(3) assms(2) by (simp add: fp0_def)
  have z: "pfile fp = pfile fp0" "fileinfo fp = fileinfo fp0"
    by (simp_all add: fp open_loop_pfile_fileinfo)
  have "\<forall>k. k < dwStreams (fileinfo fp0) \<longrightarrow> stream_type S (pfile fp0) k \<noteq> Some streamtypeVIDEO"
    using assms(3) by (simp add: z)
  from open_loop_no_video [OF this, of w1]
  have "pvideo fp = pvideo fp0 \<and> videoformat fp = videoformat fp0 \<and>
        flag fp AND FLAG_VIDEO = flag fp0 AND FLAG_VIDEO"
    by (simp add: fp [symmetric])
  then show ?thesis
    by (simp add: fp0_def zero_FILE_HANDLE_def)
qed

lemma func_read_audio_NullDeref:
  assumes "sessions w a = Some fp"
  shows "func_read_audio S w (Some a) start len buf = Inl NullDeref \<longleftrightarrow> audioformat fp = None"
  using assms
  by (auto simp: func_read_audio_def deref_def nBlockAlign_def service_calls Let_def
      split: option.splits prod.splits sum.splits if_splits)

lemma func_read_video_passes_handle:
  assumes "sessions w a = Some fp"
  shows "returned (func_read_video S w (Some a) frame buf) \<noteq> Inl e \<and>
         (\<exists>evs. trace_of (func_read_video S w (Some a) frame buf) =
            trace w @ EvAVIStreamRead (pvideo fp) frame 1 None 0 # evs)"
  using assms
  by (auto simp: func_read_video_def deref_def service_calls Let_def returned_def trace_of_def
      split: option.splits prod.splits)

lemma reads_ignore_flag:
  assumes "sessions w a = Some fp"
  shows "returned (func_read_audio S (w\<lparr>sessions := (sessions w)(a \<mapsto> fp\<lparr>flag := f\<rparr>)\<rparr>)
            (Some a) start len buf) = returned (func_read_audio S w (Some a) start len buf)"
    and "returned (func_read_video S (w\<lparr>sessions := (sessions w)(a \<mapsto> fp\<lparr>flag := f\<rparr>)\<rparr>)
            (Some a) frame buf) = returned (func_read_video S w (Some a) frame buf)"
  using assms
  by (auto simp: func_read_audio_def func_read_video_def deref_def nBlockAlign_def service_calls
      Let_def returned_def split: option.splits prod.splits sum.splits)

section \<open>Evaluation of the other fixtures\<close>

lemma func_open_movie: "func_open movie world0 ''movie.avi'' = (Some 100, opened_world)"
  by (simp add: opened_world_def func_open_fixture)

lemma func_open_two_videos:
  "func_open two_videos world0 ''movie.avi'' =
     (Some 100,
      \<lparr>sessions = [100 \<mapsto> two_videos_session],
       mem = [101 \<mapsto> fixture_format, 102 \<mapsto> fixture_format],
       nalloc = 3,
       trace =
         [EvGlobalAlloc Sizeof_FILE_HANDLE (Some 100),
          EvAVIFileOpen ''movie.avi'' (Some 1), EvAVIFileInfo (Some 1),
          EvAVIFileGetStream (Some 1) 0 (Some 10), EvAVIStreamInfo (Some 10),
          EvAVIStreamFormatSize (Some 10),
          EvGlobalAlloc (Size_LONG 18) (Some 101),
          EvAVIStreamReadFormat (Some 10) (Some 101) 18,
          EvAVIFileGetStream (Some 1) 1 (Some 11), EvAVIStreamInfo (Some 11),
          EvAVIStreamFormatSize (Some 11),
          EvGlobalAlloc (Size_LONG 18) (Some 102),
          EvAVIStreamReadFormat (Some 11) (Some 102) 18]\<rparr>)"
  by (simp add: open_eval two_videos_session_def)

lemma func_open_video_alloc_fails:
  "func_open video_alloc_fails world0 ''movie.avi'' =
     (Some 100,
      \<lparr>sessions = [100 \<mapsto> video_alloc_fails_session],
       mem = Map.empty,
       nalloc = 2,
       trace =
         [EvGlobalAlloc Sizeof_FILE_HANDLE (Some 100),
          EvAVIFileOpen ''movie.avi'' (Some 1), EvAVIFileInfo (Some 1),
          EvAVIFileGetStream (Some 1) 0 (Some 10), EvAVIStreamInfo (Some 10),
          EvAVIStreamFormatSize (Some 10),
          EvGlobalAlloc (Size_LONG 18) None,
          EvAVIStreamRelease (Some 10)]\<rparr>)"
  by (simp add: open_eval video_alloc_fails_session_def)

lemma func_open_video_only:
  "func_open video_only world0 ''movie.avi'' =
     (Some 100,
      \<lparr>sessions = [100 \<mapsto> video_only_session],
       mem = [101 \<mapsto> fixture_format],
       nalloc = 2,
       trace =
         [EvGlobalAlloc Sizeof_FILE_HANDLE (Some 100),
          EvAVIFileOpen ''movie.avi'' (Some 1), EvAVIFileInfo (Some 1),
          EvAVIFileGetStream (Some 1) 0 (Some 10), EvAVIStreamInfo (Some 10),
          EvAVIStreamFormatSize (Some 10),
          EvGlobalAlloc (Size_LONG 18) (Some 101),
          EvAVIStreamReadFormat (Some 10) (Some 101) 18]\<rparr>)"
  by (simp add: open_eval video_only_session_def)

lemma func_open_audio_only:
  "func_open audio_only world0 ''movie.avi'' =
     (Some 100,
      \<lparr>sessions = [100 \<mapsto> audio_only_session],
       mem = Map.empty,
       nalloc = 2,
       trace =
         [EvGlobalAlloc Sizeof_FILE_HANDLE (Some 100),
          EvAVIFileOpen ''movie.avi'' (Some 1), EvAVIFileInfo (Some 1),
          EvAVIFileGetStream (Some 1) 0 (Some 10), EvAVIStreamInfo (Some 10),
          EvAVIStreamFormatSize (Some 10),
          EvGlobalAlloc (Size_LONG 18) (Some 101),
          EvAVIStreamRelease (Some 10)]\<rparr>)"
  by (simp add: open_eval audio_only_session_def)

lemma word_less_2: "j < 2 \<Longrightarrow> j = 0 \<or> j = 1" for j :: DWORD
proof -
  assume "j < 2"
  then have "unat j < 2"
    by (simp add: word_less_nat_alt)
  then have "unat j = unat (0 :: DWORD) \<or> unat j = unat (1 :: DWORD)"
    by auto
  then show ?thesis
    by (simp only: word_unat_eq_iff [symmetric])
qed

lemma stream_type_movie:
  "stream_type movie (pfile opened_session) 0 = Some streamtypeVIDEO"
  "stream_type movie (pfile opened_session) 1 = Some streamtypeAUDIO"
  "dwStreams (fileinfo opened_session) = 2"
  "AVIFileGetStream_result movie (pfile opened_session) 1 = Some 11"
  "AVIStreamInfo_result movie (Some 11) =
     \<lparr>fccType = streamtypeAUDIO, dwScale = 1, dwRate = 30, dwLength = 200\<rparr>"
  by (simp_all add: stream_type_def movie_def avi_service_def opened_session_def)

lemma stream_type_two_videos:
  "stream_type two_videos (pfile two_videos_session) 0 = Some streamtypeVIDEO"
  "stream_type two_videos (pfile two_videos_session) 1 = Some streamtypeVIDEO"
  "dwStreams (fileinfo two_videos_session) = 2"
  "AVIFileGetStream_result two_videos (pfile two_videos_session) 1 = Some 11"
  "AVIStreamInfo_result two_videos (Some 11) =
     \<lparr>fccType = streamtypeVIDEO, dwScale = 1, dwRate = 30, dwLength = 200\<rparr>"
  by (simp_all add: stream_type_def two_videos_def avi_service_def two_videos_session_def)

lemma stream_type_single:
  "stream_type video_only (pfile video_only_session) 0 = Some streamtypeVIDEO"
  "dwStreams (fileinfo video_only_session) = 1"
  "stream_type audio_only (pfile audio_only_session) 0 = Some streamtypeAUDIO"
  "dwStreams (fileinfo audio_only_session) = 1"
  by (simp_all add: stream_type_def video_only_def audio_only_def avi_service_def
      video_only_session_def audio_only_session_def)

lemma world_facts:
  "func_open two_videos world0 ''movie.avi'' = (Some 100, two_videos_world)"
  "sessions two_videos_world 100 = Some two_videos_session"
  "func_open video_alloc_fails world0 ''movie.avi'' = (Some 100, video_alloc_fails_world)"
  "sessions video_alloc_fails_world 100 = Some video_alloc_fails_session"
  "func_open video_only world0 ''movie.avi'' = (Some 100, video_only_world)"
  "sessions video_only_world 100 = Some video_only_session"
  "func_open audio_only world0 ''movie.avi'' = (Some 100, audio_only_world)"
  "sessions audio_only_world 100 = Some audio_only_session"
  by (simp_all add: two_videos_world_def func_open_two_videos
      video_alloc_fails_world_def func_open_video_alloc_fails
      video_only_world_def func_open_video_only audio_only_world_def func_open_audio_only)

lemma func_open_video_two_audios:
  "func_open video_two_audios world0 ''movie.avi'' =
     (Some 100,
      \<lparr>sessions = [100 \<mapsto> video_two_audios_session],
       mem = [101 \<mapsto> fixture_format, 102 \<mapsto> fixture_format, 103 \<mapsto> fixture_format],
       nalloc = 4,
       trace =
         [EvGlobalAlloc Sizeof_FILE_HANDLE (Some 100),
          EvAVIFileOpen ''movie.avi'' (Some 1), EvAVIFileInfo (Some 1),
          EvAVIFileGetStream (Some 1) 0 (Some 10), EvAVIStreamInfo (Some 10),
          EvAVIStreamFormatSize (Some 10),
          EvGlobalAlloc (Size_LONG 18) (Some 101),
          EvAVIStreamReadFormat (Some 10) (Some 101) 18,
          EvAVIFileGetStream (Some 1) 1 (Some 11), EvAVIStreamInfo (Some 11),
          EvAVIStreamFormatSize (Some 11),
          EvGlobalAlloc (Size_LONG 18) (Some 102),
          EvAVIStreamReadFormat (Some 11) (Some 102) 18,
          EvAVIFileGetStream (Some 1) 2 (Some 12), EvAVIStreamInfo (Some 12),
          EvAVIStreamFormatSize (Some 12),
          EvGlobalAlloc (Size_LONG 18) (Some 103),
          EvAVIStreamReadFormat (Some 12) (Some 103) 18]\<rparr>)"
  by (simp add: open_eval video_two_audios_def video_two_audios_session_def)

lemma word_less_3: "j < 3 \<Longrightarrow> j = 0 \<or> j = 1 \<or> j = 2" for j :: DWORD
proof -
  assume "j < 3"
  then have "unat j < 3"
    by (simp add: word_less_nat_alt)
  then have "unat j = unat (0 :: DWORD) \<or> unat j = unat (1 :: DWORD) \<or> unat j = unat (2 :: DWORD)"
    by auto
  then show ?thesis
    by (simp only: word_unat_eq_iff [symmetric])
qed

lemma stream_type_video_two_audios:
  "stream_type video_two_audios (pfile video_two_audios_session) 0 = Some streamtypeVIDEO"
  "stream_type video_two_audios (pfile video_two_audios_session) 1 = Some streamtypeAUDIO"
  "stream_type video_two_audios (pfile video_two_audios_session) 2 = Some streamtypeAUDIO"
  "dwStreams (fileinfo video_two_audios_session) = 3"
  "AVIFileGetStream_result video_two_audios (pfile video_two_audios_session) 2 = Some 12"
  "AVIStreamInfo_result video_two_audios (Some 12) =
     \<lparr>fccType = streamtypeAUDIO, dwScale = 1, dwRate = 30, dwLength = 300\<rparr>"
  by (simp_all add: stream_type_def video_two_audios_def avi_service_def
      video_two_audios_session_def)

lemma video_two_audios_world_facts:
  "func_open video_two_audios world0 ''movie.avi'' = (Some 100, video_two_audios_world)"
  "sessions video_two_audios_world 100 = Some video_two_audios_session"
  by (simp_all add: video_two_audios_world_def func_open_video_two_audios)

section \<open>The flags and the pointers after Open\<close>

text \<open>
  C2 (amended). After a successful \<open>func_open\<close>: when FLAG_VIDEO is set the video stream
  handle is non-null, and so is the video format pointer when the file has at most one
  video stream; when FLAG_AUDIO is set the audio stream handle is non-null. No sequence
  of \<open>func_info_get\<close>, \<open>func_read_video\<close> and \<open>func_read_audio\<close> calls changes the record,
  so this holds until \<open>func_close\<close>.
\<close>

theorem func_open_flags_imply_handles:
  assumes "func_open S w file = (Some a, w')" and "sessions w' a = Some fp"
  shows "(flag fp AND FLAG_VIDEO \<noteq> 0 \<longrightarrow> pvideo fp \<noteq> None) \<and>
         (flag fp AND FLAG_AUDIO \<noteq> 0 \<longrightarrow> paudio fp \<noteq> None) \<and>
         ((\<forall>j k. j < dwStreams (fileinfo fp) \<and> k < dwStreams (fileinfo fp) \<and>
                 stream_type S (pfile fp) j = Some streamtypeVIDEO \<and>
                 stream_type S (pfile fp) k = Some streamtypeVIDEO \<longrightarrow> j = k) \<longrightarrow>
          flag fp AND FLAG_VIDEO \<noteq> 0 \<longrightarrow> videoformat fp \<noteq> None) \<and>
         (\<forall>cs w''. host_calls S cs w' = Inr w'' \<longrightarrow> sessions w'' a = Some fp)"
proof -
  have life: "\<forall>cs w''. host_calls S cs w' = Inr w'' \<longrightarrow> sessions w'' a = Some fp"
    using assms(2) by (auto dest: host_calls_sessions)
  from assms(1) show ?thesis
  proof (cases rule: func_open_success)
    case (no_info pf)
    with assms(2) have "fp = zero_FILE_HANDLE\<lparr>pfile := Some pf\<rparr>"
      by simp
    then have "flag fp = 0"
      by (simp add: zero_FILE_HANDLE_def)
    with life show ?thesis
      by simp
  next
    case (loop pf fi w1)
    define fp0 where "fp0 = zero_FILE_HANDLE\<lparr>pfile := Some pf, fileinfo := fi\<rparr>"
    have fp: "fp = fst (open_loop S 0 (fp0, w1))"
      using loop(3) assms(2) by (simp add: fp0_def)
    have z: "flag fp0 = 0" "pfile fp = pfile fp0" "fileinfo fp = fileinfo fp0"
      by (simp_all add: fp0_def zero_FILE_HANDLE_def fp open_loop_pfile_fileinfo)
    have 1: "(flag fp AND FLAG_VIDEO \<noteq> 0 \<longrightarrow> pvideo fp \<noteq> None) \<and>
         (flag fp AND FLAG_AUDIO \<noteq> 0 \<longrightarrow> paudio fp \<noteq> None)"
      unfolding fp by (rule open_loop_flag_handles) (simp_all add: z)
    have 2: "(\<forall>j k. j < dwStreams (fileinfo fp) \<and> k < dwStreams (fileinfo fp) \<and>
                 stream_type S (pfile fp) j = Some streamtypeVIDEO \<and>
                 stream_type S (pfile fp) k = Some streamtypeVIDEO \<longrightarrow> j = k) \<longrightarrow>
          flag fp AND FLAG_VIDEO \<noteq> 0 \<longrightarrow> videoformat fp \<noteq> None"
    proof
      assume "\<forall>j k. j < dwStreams (fileinfo fp) \<and> k < dwStreams (fileinfo fp) \<and>
                 stream_type S (pfile fp) j = Some streamtypeVIDEO \<and>
                 stream_type S (pfile fp) k = Some streamtypeVIDEO \<longrightarrow> j = k"
      then have "\<forall>j k. j < dwStreams (fileinfo fp0) \<and> k < dwStreams (fileinfo fp0) \<and>
                 stream_type S (pfile fp0) j = Some streamtypeVIDEO \<and>
                 stream_type S (pfile fp0) k = Some streamtypeVIDEO \<longrightarrow> j = k"
        by (simp add: z)
      then show "flag fp AND FLAG_VIDEO \<noteq> 0 \<longrightarrow> videoformat fp \<noteq> None"
        unfolding fp by (rule open_loop_single_video) (simp add: z)
    qed
    from 1 2 life show ?thesis
      by blast
  qed
qed

theorem func_open_flags_imply_handles_witness:
  "func_open movie world0 ''movie.avi'' = (Some 100, opened_world) \<and>
   sessions opened_world 100 = Some opened_session \<and>
   flag opened_session AND FLAG_VIDEO \<noteq> 0 \<and> pvideo opened_session \<noteq> None \<and>
   flag opened_session AND FLAG_AUDIO \<noteq> 0 \<and> paudio opened_session \<noteq> None \<and>
   videoformat opened_session \<noteq> None \<and>
   (\<exists>w''. host_calls movie
            [Info_get input2_h_fixture (Some 100) zero_INPUT_INFO,
             Read_video (Some 100) 0 (Some 500), Read_audio (Some 100) 0 100 (Some 500)]
            opened_world = Inr w'' \<and>
          sessions w'' 100 = Some opened_session)"
proof -
  note t = func_open_flags_imply_handles [OF func_open_movie opened_world_session]
  have fl: "flag opened_session AND FLAG_VIDEO \<noteq> 0" "flag opened_session AND FLAG_AUDIO \<noteq> 0"
    by (simp_all add: opened_session_def FLAG_VIDEO_def FLAG_AUDIO_def)
  have one: "\<forall>j k. j < dwStreams (fileinfo opened_session) \<and> k < dwStreams (fileinfo opened_session) \<and>
      stream_type movie (pfile opened_session) j = Some streamtypeVIDEO \<and>
      stream_type movie (pfile opened_session) k = Some streamtypeVIDEO \<longrightarrow> j = k"
  proof (intro allI impI, elim conjE)
    fix j k :: DWORD
    assume "j < dwStreams (fileinfo opened_session)" "k < dwStreams (fileinfo opened_session)"
      and v: "stream_type movie (pfile opened_session) j = Some streamtypeVIDEO"
        "stream_type movie (pfile opened_session) k = Some streamtypeVIDEO"
    then have "(j = 0 \<or> j = 1) \<and> (k = 0 \<or> k = 1)"
      by (simp add: stream_type_movie word_less_2)
    with v show "j = k"
      by (auto simp: stream_type_movie streamtypes_differ)
  qed
  obtain iip' where 1: "func_info_get input2_h_fixture opened_world (Some 100) zero_INPUT_INFO =
      Inr (True, iip', opened_world)"
    using func_info_get_video [OF opened_world_session fl(1)] by blast
  obtain r w1 where 2: "func_read_video movie opened_world (Some 100) 0 (Some 500) = Inr (r, w1)"
    using func_read_video_returns [OF opened_world_session] by blast
  have s1: "sessions w1 100 = Some opened_session"
    using func_read_video_sessions [OF 2] opened_world_session by simp
  have "nBlockAlign w1 (audioformat opened_session) = Inr 4"
    using 2 opened_world_nBlockAlign
    by (auto simp: func_read_video_def deref_def opened_world_session service_calls nBlockAlign_def
        opened_session_def movie_def avi_service_def split: if_splits)
  from func_read_audio_returns [OF s1 this]
  obtain r' w2 where 3: "func_read_audio movie w1 (Some 100) 0 100 (Some 500) = Inr (r', w2)"
    by blast
  have hc: "host_calls movie
            [Info_get input2_h_fixture (Some 100) zero_INPUT_INFO,
             Read_video (Some 100) 0 (Some 500), Read_audio (Some 100) 0 100 (Some 500)]
            opened_world = Inr w2"
    by (simp add: 1 2 3)
  with t have "sessions w2 100 = Some opened_session"
    by blast
  with hc t fl one func_open_movie opened_world_session show ?thesis
    by blast
qed

text \<open>
  The claim as first stated fails: in a file with two video streams where the format
  allocation of the second fails, FLAG_VIDEO stays set from the first stream while
  \<open>videoformat\<close> is overwritten with NULL (and \<open>pvideo\<close> with the handle 11, which is
  released).
\<close>

theorem func_open_flag_without_format_counterexample:
  "func_open (avi_service (alloc_fail_at 2) [streamtypeVIDEO, streamtypeVIDEO]) world0 ''movie.avi'' =
     (Some 100,
      \<lparr>sessions =
         [100 \<mapsto> \<lparr>flag = 1, pfile = Some 1, pvideo = Some 11, paudio = None,
                  fileinfo = \<lparr>dwStreams = 2\<rparr>,
                  videoinfo = \<lparr>fccType = streamtypeVIDEO, dwScale = 1, dwRate = 30, dwLength = 200\<rparr>,
                  audioinfo = zero_AVISTREAMINFO,
                  videoformat = None, videoformatsize = 18,
                  audioformat = None, audioformatsize = 0\<rparr>],
       mem = [101 \<mapsto> fixture_format],
       nalloc = 3,
       trace =
         [EvGlobalAlloc Sizeof_FILE_HANDLE (Some 100),
          EvAVIFileOpen ''movie.avi'' (Some 1), EvAVIFileInfo (Some 1),
          EvAVIFileGetStream (Some 1) 0 (Some 10), EvAVIStreamInfo (Some 10),
          EvAVIStreamFormatSize (Some 10),
          EvGlobalAlloc (Size_LONG 18) (Some 101),
          EvAVIStreamReadFormat (Some 10) (Some 101) 18,
          EvAVIFileGetStream (Some 1) 1 (Some 11), EvAVIStreamInfo (Some 11),
          EvAVIStreamFormatSize (Some 11),
          EvGlobalAlloc (Size_LONG 18) None,
          EvAVIStreamRelease (Some 11)]\<rparr>) \<and>
   (1 :: cint) AND FLAG_VIDEO \<noteq> 0"
  by (simp add: open_eval)

section \<open>Several streams of one type\<close>

text \<open>
  C3 (amended). \<open>func_open\<close> does not keep the first stream of a type and release the later
  ones: every video (audio) stream overwrites the handle and the stream information that the
  record holds for its type. So when \<open>k\<close> is the last index of its type, the record holds
  the handle and the stream information of the stream \<open>k\<close>, and \<open>func_info_get\<close>, when the
  flag of the type is set, reports that stream's rate, scale and length.

  Holding the handle is not yet keeping the stream open, so that is stated apart. When no
  allocation fails, the last video stream is kept: \<open>FLAG_VIDEO\<close> is set, \<open>videoformat\<close> is
  not null and the handle in \<open>pvideo\<close> is not released by \<open>func_open\<close>. When moreover every
  audio stream of the file comes after a video stream, the last audio stream is kept in the
  same sense. And when no allocation fails, a stream that \<open>func_open\<close> releases is never a
  video stream, and it is an audio stream only if no video stream comes before it in the
  file: no stream is released for being the second of its type.
\<close>

theorem func_open_stores_last_stream:
  assumes "func_open S w file = (Some a, w')" and "sessions w' a = Some fp"
    and "k < dwStreams (fileinfo fp)"
    and "stream_type S (pfile fp) k = Some ty"
    and "\<forall>m. k < m \<and> m < dwStreams (fileinfo fp) \<longrightarrow> stream_type S (pfile fp) m \<noteq> Some ty"
  shows "(ty = streamtypeVIDEO \<longrightarrow>
            pvideo fp = AVIFileGetStream_result S (pfile fp) k \<and>
            videoinfo fp = AVIStreamInfo_result S (AVIFileGetStream_result S (pfile fp) k) \<and>
            (flag fp AND FLAG_VIDEO \<noteq> 0 \<longrightarrow>
               (\<exists>iip'. func_info_get H w' (Some a) iip = Inr (True, iip', w') \<and>
                  rate iip' = dwRate (AVIStreamInfo_result S (AVIFileGetStream_result S (pfile fp) k)) \<and>
                  scale iip' = dwScale (AVIStreamInfo_result S (AVIFileGetStream_result S (pfile fp) k)) \<and>
                  n iip' = dwLength (AVIStreamInfo_result S (AVIFileGetStream_result S (pfile fp) k)) \<and>
                  format iip' = videoformat fp)) \<and>
            ((\<forall>c req. GlobalAlloc_result S c req \<noteq> None) \<longrightarrow>
               flag fp AND FLAG_VIDEO \<noteq> 0 \<and> videoformat fp \<noteq> None \<and>
               (\<exists>evs. trace w' = trace w @ evs \<and> EvAVIStreamRelease (pvideo fp) \<notin> set evs))) \<and>
         (ty = streamtypeAUDIO \<longrightarrow>
            paudio fp = AVIFileGetStream_result S (pfile fp) k \<and>
            audioinfo fp = AVIStreamInfo_result S (AVIFileGetStream_result S (pfile fp) k) \<and>
            (flag fp AND FLAG_AUDIO \<noteq> 0 \<longrightarrow>
               (\<exists>iip'. func_info_get H w' (Some a) iip = Inr (True, iip', w') \<and>
                  audio_n iip' = dwLength (AVIStreamInfo_result S (AVIFileGetStream_result S (pfile fp) k)) \<and>
                  audio_format iip' = audioformat fp)) \<and>
            ((\<forall>c req. GlobalAlloc_result S c req \<noteq> None) \<and>
             (\<forall>j. j < dwStreams (fileinfo fp) \<and> stream_type S (pfile fp) j = Some streamtypeAUDIO \<longrightarrow>
                  (\<exists>v. v < j \<and> stream_type S (pfile fp) v = Some streamtypeVIDEO)) \<longrightarrow>
               flag fp AND FLAG_AUDIO \<noteq> 0 \<and> audioformat fp \<noteq> None \<and>
               (\<exists>evs. trace w' = trace w @ evs \<and> EvAVIStreamRelease (paudio fp) \<notin> set evs))) \<and>
         ((\<forall>c req. GlobalAlloc_result S c req \<noteq> None) \<longrightarrow>
            (\<exists>evs. trace w' = trace w @ evs \<and>
               (\<forall>h. EvAVIStreamRelease h \<in> set evs \<longrightarrow>
                  (\<exists>j. j < dwStreams (fileinfo fp) \<and> h = AVIFileGetStream_result S (pfile fp) j \<and>
                       stream_type S (pfile fp) j \<noteq> Some streamtypeVIDEO \<and>
                       (stream_type S (pfile fp) j = Some streamtypeAUDIO \<longrightarrow>
                          (\<forall>v. v < j \<longrightarrow> stream_type S (pfile fp) v \<noteq> Some streamtypeVIDEO))))))"
  using assms(1)
proof (cases rule: func_open_success)
  case (no_info pf)
  with assms(2) have "fp = zero_FILE_HANDLE\<lparr>pfile := Some pf\<rparr>"
    by simp
  then have "dwStreams (fileinfo fp) = 0"
    by (simp add: zero_FILE_HANDLE_def)
  with assms(3) show ?thesis
    by simp
next
  case (loop pf fi w1)
  define fp0 where "fp0 = zero_FILE_HANDLE\<lparr>pfile := Some pf, fileinfo := fi\<rparr>"
  define st where "st = stream_type S (pfile fp)"
  define gs where "gs = AVIFileGetStream_result S (pfile fp)"
  define ok where "ok \<longleftrightarrow> (\<forall>c req. GlobalAlloc_result S c req \<noteq> None)"
  define R where "R = (\<lambda>h. \<exists>j. j < dwStreams (fileinfo fp) \<and> h = gs j \<and>
      st j \<noteq> Some streamtypeVIDEO \<and>
      (st j = Some streamtypeAUDIO \<longrightarrow> (\<forall>v. v < j \<longrightarrow> st v \<noteq> Some streamtypeVIDEO)))"
  let ?pre = "[EvGlobalAlloc Sizeof_FILE_HANDLE (Some a),
               EvAVIFileOpen file (Some pf), EvAVIFileInfo (Some pf)]"
  have fp: "fp = fst (open_loop S 0 (fp0, w1))"
    using loop(3) assms(2) by (simp add: fp0_def)
  have z: "pfile fp = pfile fp0" "fileinfo fp = fileinfo fp0"
    by (simp_all add: fp open_loop_pfile_fileinfo)
  have k: "k < dwStreams (fileinfo fp0)" "stream_type S (pfile fp0) k = Some ty"
    "\<forall>m. k < m \<and> m < dwStreams (fileinfo fp0) \<longrightarrow> stream_type S (pfile fp0) m \<noteq> Some ty"
    using assms(3-5) by (simp_all add: z)
  have same: "\<And>j. gs k = gs j \<Longrightarrow> st j = Some ty"
    using stream_type_same_handle [of S "pfile fp" k] assms(4) by (simp add: st_def gs_def)
  have v: "ty = streamtypeVIDEO \<longrightarrow>
            pvideo fp = AVIFileGetStream_result S (pfile fp) k \<and>
            videoinfo fp = AVIStreamInfo_result S (AVIFileGetStream_result S (pfile fp) k)"
  proof
    assume ty: "ty = streamtypeVIDEO"
    note r = open_loop_last_video [OF k(1) k(2) [unfolded ty] k(3) [unfolded ty], of w1]
    from r show "pvideo fp = AVIFileGetStream_result S (pfile fp) k \<and>
            videoinfo fp = AVIStreamInfo_result S (AVIFileGetStream_result S (pfile fp) k)"
      by (simp add: fp [symmetric] z)
  qed
  have au: "ty = streamtypeAUDIO \<longrightarrow>
            paudio fp = AVIFileGetStream_result S (pfile fp) k \<and>
            audioinfo fp = AVIStreamInfo_result S (AVIFileGetStream_result S (pfile fp) k)"
  proof
    assume ty: "ty = streamtypeAUDIO"
    note r = open_loop_last_audio [OF k(1) k(2) [unfolded ty] k(3) [unfolded ty], of w1]
    from r show "paudio fp = AVIFileGetStream_result S (pfile fp) k \<and>
            audioinfo fp = AVIStreamInfo_result S (AVIFileGetStream_result S (pfile fp) k)"
      by (simp add: fp [symmetric] z)
  qed
  have kept: "ok \<longrightarrow>
      ((\<exists>k. k < dwStreams (fileinfo fp) \<and> st k = Some streamtypeVIDEO) \<longrightarrow>
          flag fp AND FLAG_VIDEO \<noteq> 0 \<and> videoformat fp \<noteq> None) \<and>
      ((\<forall>j. j < dwStreams (fileinfo fp) \<and> st j = Some streamtypeAUDIO \<longrightarrow>
             (\<exists>v. v < j \<and> st v = Some streamtypeVIDEO)) \<longrightarrow>
       (\<exists>k. k < dwStreams (fileinfo fp) \<and> st k = Some streamtypeAUDIO) \<longrightarrow>
          flag fp AND FLAG_AUDIO \<noteq> 0 \<and> audioformat fp \<noteq> None) \<and>
      (\<exists>evs. trace w' = trace w @ evs \<and> (\<forall>h. EvAVIStreamRelease h \<in> set evs \<longrightarrow> R h))"
  proof
    assume ok
    then have ok': "\<forall>c req. GlobalAlloc_result S c req \<noteq> None"
      by (simp add: ok_def)
    note r = open_loop_kept [OF ok', of fp0 w1, folded fp, folded z, folded st_def gs_def]
    from r obtain evs where evs: "trace (snd (open_loop S 0 (fp0, w1))) = trace w1 @ evs"
        "\<forall>h. EvAVIStreamRelease h \<in> set evs \<longrightarrow> R h"
      unfolding R_def by blast
    have "trace w' = trace w @ (?pre @ evs)"
      using loop(4,5) evs(1) by (simp add: fp0_def)
    moreover have "\<forall>h. EvAVIStreamRelease h \<in> set (?pre @ evs) \<longrightarrow> R h"
      using evs(2) by simp
    ultimately have "\<exists>evs. trace w' = trace w @ evs \<and> (\<forall>h. EvAVIStreamRelease h \<in> set evs \<longrightarrow> R h)"
      by blast
    with r show "((\<exists>k. k < dwStreams (fileinfo fp) \<and> st k = Some streamtypeVIDEO) \<longrightarrow>
          flag fp AND FLAG_VIDEO \<noteq> 0 \<and> videoformat fp \<noteq> None) \<and>
      ((\<forall>j. j < dwStreams (fileinfo fp) \<and> st j = Some streamtypeAUDIO \<longrightarrow>
             (\<exists>v. v < j \<and> st v = Some streamtypeVIDEO)) \<longrightarrow>
       (\<exists>k. k < dwStreams (fileinfo fp) \<and> st k = Some streamtypeAUDIO) \<longrightarrow>
          flag fp AND FLAG_AUDIO \<noteq> 0 \<and> audioformat fp \<noteq> None) \<and>
      (\<exists>evs. trace w' = trace w @ evs \<and> (\<forall>h. EvAVIStreamRelease h \<in> set evs \<longrightarrow> R h))"
      by blast
  qed
  have kst: "k < dwStreams (fileinfo fp)" "st k = Some ty"
    using assms(3,4) by (simp_all add: st_def)
  have kv: "ty = streamtypeVIDEO \<longrightarrow> ok \<longrightarrow>
      flag fp AND FLAG_VIDEO \<noteq> 0 \<and> videoformat fp \<noteq> None \<and>
      (\<exists>evs. trace w' = trace w @ evs \<and> EvAVIStreamRelease (pvideo fp) \<notin> set evs)"
  proof (intro impI)
    assume ty: "ty = streamtypeVIDEO" and ok
    with kept kst have f: "flag fp AND FLAG_VIDEO \<noteq> 0 \<and> videoformat fp \<noteq> None"
      by blast
    from kept \<open>ok\<close> obtain evs where evs: "trace w' = trace w @ evs"
        "\<forall>h. EvAVIStreamRelease h \<in> set evs \<longrightarrow> R h"
      by blast
    have "\<not> R (gs k)"
      using same ty unfolding R_def by auto
    with evs(2) have "EvAVIStreamRelease (gs k) \<notin> set evs"
      by blast
    moreover from v ty have "pvideo fp = gs k"
      by (simp add: gs_def)
    ultimately show "flag fp AND FLAG_VIDEO \<noteq> 0 \<and> videoformat fp \<noteq> None \<and>
      (\<exists>evs. trace w' = trace w @ evs \<and> EvAVIStreamRelease (pvideo fp) \<notin> set evs)"
      using f evs(1) by auto
  qed
  have ka: "ty = streamtypeAUDIO \<longrightarrow>
      ok \<and> (\<forall>j. j < dwStreams (fileinfo fp) \<and> st j = Some streamtypeAUDIO \<longrightarrow>
             (\<exists>v. v < j \<and> st v = Some streamtypeVIDEO)) \<longrightarrow>
      flag fp AND FLAG_AUDIO \<noteq> 0 \<and> audioformat fp \<noteq> None \<and>
      (\<exists>evs. trace w' = trace w @ evs \<and> EvAVIStreamRelease (paudio fp) \<notin> set evs)"
  proof (intro impI)
    assume ty: "ty = streamtypeAUDIO"
      and h: "ok \<and> (\<forall>j. j < dwStreams (fileinfo fp) \<and> st j = Some streamtypeAUDIO \<longrightarrow>
             (\<exists>v. v < j \<and> st v = Some streamtypeVIDEO))"
    with kept kst have f: "flag fp AND FLAG_AUDIO \<noteq> 0 \<and> audioformat fp \<noteq> None"
      by blast
    from kept h obtain evs where evs: "trace w' = trace w @ evs"
        "\<forall>h. EvAVIStreamRelease h \<in> set evs \<longrightarrow> R h"
      by blast
    have "\<not> R (gs k)"
    proof
      assume "R (gs k)"
      then obtain j where j: "j < dwStreams (fileinfo fp)" "gs k = gs j"
        "st j = Some streamtypeAUDIO \<longrightarrow> (\<forall>v. v < j \<longrightarrow> st v \<noteq> Some streamtypeVIDEO)"
        unfolding R_def by blast
      from same [OF j(2)] ty have "st j = Some streamtypeAUDIO"
        by simp
      with j(1,3) h show False
        by blast
    qed
    with evs(2) have "EvAVIStreamRelease (gs k) \<notin> set evs"
      by blast
    moreover from au ty have "paudio fp = gs k"
      by (simp add: gs_def)
    ultimately show "flag fp AND FLAG_AUDIO \<noteq> 0 \<and> audioformat fp \<noteq> None \<and>
      (\<exists>evs. trace w' = trace w @ evs \<and> EvAVIStreamRelease (paudio fp) \<notin> set evs)"
      using f evs(1) by auto
  qed
  have rel: "ok \<longrightarrow> (\<exists>evs. trace w' = trace w @ evs \<and> (\<forall>h. EvAVIStreamRelease h \<in> set evs \<longrightarrow> R h))"
    using kept by blast
  have gv: "ty = streamtypeVIDEO \<longrightarrow> flag fp AND FLAG_VIDEO \<noteq> 0 \<longrightarrow>
               (\<exists>iip'. func_info_get H w' (Some a) iip = Inr (True, iip', w') \<and>
                  rate iip' = dwRate (AVIStreamInfo_result S (AVIFileGetStream_result S (pfile fp) k)) \<and>
                  scale iip' = dwScale (AVIStreamInfo_result S (AVIFileGetStream_result S (pfile fp) k)) \<and>
                  n iip' = dwLength (AVIStreamInfo_result S (AVIFileGetStream_result S (pfile fp) k)) \<and>
                  format iip' = videoformat fp)"
    using func_info_get_video [OF assms(2), of H iip] v by auto
  have ga: "ty = streamtypeAUDIO \<longrightarrow> flag fp AND FLAG_AUDIO \<noteq> 0 \<longrightarrow>
               (\<exists>iip'. func_info_get H w' (Some a) iip = Inr (True, iip', w') \<and>
                  audio_n iip' = dwLength (AVIStreamInfo_result S (AVIFileGetStream_result S (pfile fp) k)) \<and>
                  audio_format iip' = audioformat fp)"
    using func_info_get_audio [OF assms(2), of H iip] au by auto
  from v au gv ga kv ka rel show ?thesis
    unfolding ok_def R_def st_def gs_def by blast
qed

theorem func_open_stores_last_stream_witness:
  "func_open two_videos world0 ''movie.avi'' = (Some 100, two_videos_world) \<and>
   sessions two_videos_world 100 = Some two_videos_session \<and>
   1 < dwStreams (fileinfo two_videos_session) \<and>
   stream_type two_videos (pfile two_videos_session) 0 = Some streamtypeVIDEO \<and>
   stream_type two_videos (pfile two_videos_session) 1 = Some streamtypeVIDEO \<and>
   (\<forall>c req. GlobalAlloc_result two_videos c req \<noteq> None) \<and>
   pvideo two_videos_session = Some 11 \<and>
   videoinfo two_videos_session = AVIStreamInfo_result two_videos (Some 11) \<and>
   flag two_videos_session AND FLAG_VIDEO \<noteq> 0 \<and>
   videoformat two_videos_session \<noteq> None \<and>
   (\<exists>iip'. func_info_get input2_h_fixture two_videos_world (Some 100) zero_INPUT_INFO =
             Inr (True, iip', two_videos_world) \<and>
           rate iip' = 30 \<and> scale iip' = 1 \<and> n iip' = 200 \<and> format iip' = Some 102) \<and>
   (\<exists>evs. trace two_videos_world = trace world0 @ evs \<and>
          EvAVIStreamRelease (Some 11) \<notin> set evs) \<and>
   (\<exists>evs. trace two_videos_world = trace world0 @ evs \<and>
          (\<forall>h. EvAVIStreamRelease h \<notin> set evs)) \<and>
   func_open video_two_audios world0 ''movie.avi'' = (Some 100, video_two_audios_world) \<and>
   sessions video_two_audios_world 100 = Some video_two_audios_session \<and>
   2 < dwStreams (fileinfo video_two_audios_session) \<and>
   stream_type video_two_audios (pfile video_two_audios_session) 0 = Some streamtypeVIDEO \<and>
   stream_type video_two_audios (pfile video_two_audios_session) 1 = Some streamtypeAUDIO \<and>
   stream_type video_two_audios (pfile video_two_audios_session) 2 = Some streamtypeAUDIO \<and>
   (\<forall>c req. GlobalAlloc_result video_two_audios c req \<noteq> None) \<and>
   paudio video_two_audios_session = Some 12 \<and>
   audioinfo video_two_audios_session = AVIStreamInfo_result video_two_audios (Some 12) \<and>
   flag video_two_audios_session AND FLAG_AUDIO \<noteq> 0 \<and>
   audioformat video_two_audios_session \<noteq> None \<and>
   (\<exists>iip'. func_info_get input2_h_fixture video_two_audios_world (Some 100) zero_INPUT_INFO =
             Inr (True, iip', video_two_audios_world) \<and>
           audio_n iip' = 300 \<and> audio_format iip' = Some 103) \<and>
   (\<exists>evs. trace video_two_audios_world = trace world0 @ evs \<and>
          EvAVIStreamRelease (Some 12) \<notin> set evs)"
proof -
  have lta: "2 < dwStreams (fileinfo video_two_audios_session)"
    by (simp add: stream_type_video_two_audios)
  have lasta: "\<forall>m. 2 < m \<and> m < dwStreams (fileinfo video_two_audios_session) \<longrightarrow>
      stream_type video_two_audios (pfile video_two_audios_session) m \<noteq> Some streamtypeAUDIO"
    by (auto simp: stream_type_video_two_audios dest: word_less_3)
  have oka: "\<forall>c req. GlobalAlloc_result video_two_audios c req \<noteq> None"
    by (simp add: video_two_audios_def avi_service_def alloc_all_def)
  have pre: "\<forall>j. j < dwStreams (fileinfo video_two_audios_session) \<and>
        stream_type video_two_audios (pfile video_two_audios_session) j = Some streamtypeAUDIO \<longrightarrow>
      (\<exists>v. v < j \<and>
         stream_type video_two_audios (pfile video_two_audios_session) v = Some streamtypeVIDEO)"
  proof (intro allI impI)
    fix j :: DWORD
    assume j: "j < dwStreams (fileinfo video_two_audios_session) \<and>
        stream_type video_two_audios (pfile video_two_audios_session) j = Some streamtypeAUDIO"
    then have "j = 0 \<or> j = 1 \<or> j = 2"
      by (simp add: stream_type_video_two_audios(4) word_less_3)
    with j have "0 < j"
      by (auto simp: stream_type_video_two_audios streamtypes_differ)
    with stream_type_video_two_audios(1)
    show "\<exists>v. v < j \<and>
         stream_type video_two_audios (pfile video_two_audios_session) v = Some streamtypeVIDEO"
      by blast
  qed
  have sfa: "audioformat video_two_audios_session = Some 103"
    by (simp add: video_two_audios_session_def)
  note ta = func_open_stores_last_stream
    [OF video_two_audios_world_facts lta stream_type_video_two_audios(3) lasta,
     of input2_h_fixture zero_INPUT_INFO]
  from ta oka pre have ka: "flag video_two_audios_session AND FLAG_AUDIO \<noteq> 0 \<and>
      audioformat video_two_audios_session \<noteq> None \<and>
      (\<exists>evs. trace video_two_audios_world = trace world0 @ evs \<and>
          EvAVIStreamRelease (paudio video_two_audios_session) \<notin> set evs)"
    by blast
  from ta ka have 3: "paudio video_two_audios_session = Some 12 \<and>
      audioinfo video_two_audios_session = AVIStreamInfo_result video_two_audios (Some 12) \<and>
      (\<exists>iip'. func_info_get input2_h_fixture video_two_audios_world (Some 100) zero_INPUT_INFO =
             Inr (True, iip', video_two_audios_world) \<and>
           audio_n iip' = 300 \<and> audio_format iip' = Some 103)"
    by (simp add: stream_type_video_two_audios(5,6) sfa)
  from ka 3 have 4: "\<exists>evs. trace video_two_audios_world = trace world0 @ evs \<and>
          EvAVIStreamRelease (Some 12) \<notin> set evs"
    by simp
  have lt: "1 < dwStreams (fileinfo two_videos_session)"
    by (simp add: stream_type_two_videos)
  have last: "\<forall>m. 1 < m \<and> m < dwStreams (fileinfo two_videos_session) \<longrightarrow>
      stream_type two_videos (pfile two_videos_session) m \<noteq> Some streamtypeVIDEO"
    by (auto simp: stream_type_two_videos dest: word_less_2)
  have sf: "videoformat two_videos_session = Some 102"
    by (simp add: two_videos_session_def)
  have ok: "\<forall>c req. GlobalAlloc_result two_videos c req \<noteq> None"
    by (simp add: two_videos_def avi_service_def alloc_all_def)
  note t = func_open_stores_last_stream
    [OF world_facts(1) world_facts(2) lt stream_type_two_videos(2) last,
     of input2_h_fixture zero_INPUT_INFO]
  from t ok have kv: "flag two_videos_session AND FLAG_VIDEO \<noteq> 0 \<and>
      videoformat two_videos_session \<noteq> None \<and>
      (\<exists>evs. trace two_videos_world = trace world0 @ evs \<and>
          EvAVIStreamRelease (pvideo two_videos_session) \<notin> set evs)"
    by blast
  from t kv have 1: "pvideo two_videos_session = Some 11 \<and>
      videoinfo two_videos_session = AVIStreamInfo_result two_videos (Some 11) \<and>
      (\<exists>iip'. func_info_get input2_h_fixture two_videos_world (Some 100) zero_INPUT_INFO =
             Inr (True, iip', two_videos_world) \<and>
           rate iip' = 30 \<and> scale iip' = 1 \<and> n iip' = 200 \<and> format iip' = Some 102)"
    by (simp add: stream_type_two_videos(4,5) sf)
  from kv 1 have 5: "\<exists>evs. trace two_videos_world = trace world0 @ evs \<and>
          EvAVIStreamRelease (Some 11) \<notin> set evs"
    by simp
  from t ok obtain evs where evs: "trace two_videos_world = trace world0 @ evs"
    "\<forall>h. EvAVIStreamRelease h \<in> set evs \<longrightarrow>
       (\<exists>j. j < dwStreams (fileinfo two_videos_session) \<and>
            h = AVIFileGetStream_result two_videos (pfile two_videos_session) j \<and>
            stream_type two_videos (pfile two_videos_session) j \<noteq> Some streamtypeVIDEO \<and>
            (stream_type two_videos (pfile two_videos_session) j = Some streamtypeAUDIO \<longrightarrow>
               (\<forall>v. v < j \<longrightarrow>
                  stream_type two_videos (pfile two_videos_session) v \<noteq> Some streamtypeVIDEO)))"
    by blast
  have "\<forall>h. EvAVIStreamRelease h \<notin> set evs"
  proof (intro allI notI)
    fix h assume "EvAVIStreamRelease h \<in> set evs"
    with evs(2) obtain j where "j < dwStreams (fileinfo two_videos_session)"
      "stream_type two_videos (pfile two_videos_session) j \<noteq> Some streamtypeVIDEO"
      by blast
    then show False
      by (auto simp: stream_type_two_videos dest: word_less_2)
  qed
  with evs(1) have 2: "\<exists>evs. trace two_videos_world = trace world0 @ evs \<and>
          (\<forall>h. EvAVIStreamRelease h \<notin> set evs)"
    by blast
  from world_facts(1,2) lt stream_type_two_videos(1,2) ok kv 1 5 2
    video_two_audios_world_facts lta stream_type_video_two_audios(1,2,3) oka ka 3 4
  show ?thesis
    by blast
qed

text \<open>
  The claim as first stated fails: with two video streams (handles 10 and 11, lengths 100
  and 200) the record holds the second handle, neither handle is released, and
  \<open>func_info_get\<close> reports the length 200 and the format allocated for the second.
\<close>

theorem func_open_first_stream_counterexample:
  "func_open two_videos world0 ''movie.avi'' = (Some 100, two_videos_world) \<and>
   sessions two_videos_world 100 = Some two_videos_session \<and>
   AVIFileGetStream_result two_videos (Some 1) 0 = Some 10 \<and>
   AVIFileGetStream_result two_videos (Some 1) 1 = Some 11 \<and>
   pvideo two_videos_session = Some 11 \<and>
   EvAVIStreamRelease (Some 11) \<notin> set (trace two_videos_world) \<and>
   EvAVIStreamRelease (Some 10) \<notin> set (trace two_videos_world) \<and>
   dwLength (AVIStreamInfo_result two_videos (Some 10)) = 100 \<and>
   dwLength (AVIStreamInfo_result two_videos (Some 11)) = 200 \<and>
   func_info_get input2_h_fixture two_videos_world (Some 100) zero_INPUT_INFO =
     Inr (True,
          \<lparr>info_flag = 1, rate = 30, scale = 1, n = 200, format = Some 102, format_size = 18,
           audio_n = 0, audio_format = None, audio_format_size = 0\<rparr>,
          two_videos_world)"
proof -
  have "func_info_get input2_h_fixture two_videos_world (Some 100) zero_INPUT_INFO =
     Inr (True,
          \<lparr>info_flag = 1, rate = 30, scale = 1, n = 200, format = Some 102, format_size = 18,
           audio_n = 0, audio_format = None, audio_format_size = 0\<rparr>,
          two_videos_world)"
    by (simp add: func_info_get_def deref_def world_facts two_videos_session_def Let_def
        FLAG_VIDEO_def FLAG_AUDIO_def input2_h_fixture_def zero_INPUT_INFO_def)
  moreover have "EvAVIStreamRelease (Some 11) \<notin> set (trace two_videos_world) \<and>
      EvAVIStreamRelease (Some 10) \<notin> set (trace two_videos_world)"
    by (simp add: two_videos_world_def func_open_two_videos)
  moreover have "AVIFileGetStream_result two_videos (Some 1) 0 = Some 10 \<and>
      AVIFileGetStream_result two_videos (Some 1) 1 = Some 11 \<and>
      dwLength (AVIStreamInfo_result two_videos (Some 10)) = 100 \<and>
      dwLength (AVIStreamInfo_result two_videos (Some 11)) = 200"
    by (simp add: two_videos_def avi_service_def)
  moreover have "pvideo two_videos_session = Some 11"
    by (simp add: two_videos_session_def)
  ultimately show ?thesis
    using world_facts(1,2) by simp
qed

section \<open>The read functions do not validate\<close>

text \<open>
  C10 (amended). \<open>func_read_audio\<close> and \<open>func_read_video\<close> check neither the flag nor the
  pointers: what they return does not depend on the flag. \<open>func_read_audio\<close> reads the
  block alignment through \<open>audioformat\<close>, a null dereference exactly when that pointer
  is null; \<open>func_read_video\<close> passes \<open>pvideo\<close>, null or not, to the service. The null
  dereference cannot happen when FLAG_AUDIO is set and the flag implies a non-null
  \<open>audioformat\<close>. After \<open>func_open\<close> on a file with no audio stream FLAG_AUDIO is unset
  and \<open>func_read_audio\<close> dereferences null; on a file with no video stream FLAG_VIDEO is
  unset and \<open>func_read_video\<close> passes a null handle.
\<close>

theorem reads_do_not_validate:
  assumes "sessions w a = Some fp"
  shows "(func_read_audio S w (Some a) start len buf = Inl NullDeref \<longleftrightarrow> audioformat fp = None) \<and>
         (\<exists>evs. trace_of (func_read_video S w (Some a) frame buf) =
            trace w @ EvAVIStreamRead (pvideo fp) frame 1 None 0 # evs) \<and>
         (\<forall>f. returned (func_read_audio S (w\<lparr>sessions := (sessions w)(a \<mapsto> fp\<lparr>flag := f\<rparr>)\<rparr>)
                 (Some a) start len buf) = returned (func_read_audio S w (Some a) start len buf)) \<and>
         (\<forall>f. returned (func_read_video S (w\<lparr>sessions := (sessions w)(a \<mapsto> fp\<lparr>flag := f\<rparr>)\<rparr>)
                 (Some a) frame buf) = returned (func_read_video S w (Some a) frame buf)) \<and>
         (flag fp AND FLAG_AUDIO \<noteq> 0 \<and> (flag fp AND FLAG_AUDIO \<noteq> 0 \<longrightarrow> audioformat fp \<noteq> None) \<longrightarrow>
            func_read_audio S w (Some a) start len buf \<noteq> Inl NullDeref) \<and>
         (\<forall>w0 file. func_open S w0 file = (Some a, w) \<and>
            (\<forall>k. k < dwStreams (fileinfo fp) \<longrightarrow> stream_type S (pfile fp) k \<noteq> Some streamtypeAUDIO) \<longrightarrow>
            flag fp AND FLAG_AUDIO = 0 \<and> func_read_audio S w (Some a) start len buf = Inl NullDeref) \<and>
         (\<forall>w0 file. func_open S w0 file = (Some a, w) \<and>
            (\<forall>k. k < dwStreams (fileinfo fp) \<longrightarrow> stream_type S (pfile fp) k \<noteq> Some streamtypeVIDEO) \<longrightarrow>
            flag fp AND FLAG_VIDEO = 0 \<and>
            (\<exists>evs. trace_of (func_read_video S w (Some a) frame buf) =
               trace w @ EvAVIStreamRead None frame 1 None 0 # evs))"
proof -
  note nd = func_read_audio_NullDeref [OF assms, of S start len buf]
  note pv = func_read_video_passes_handle [OF assms, of S frame buf]
  have 5: "\<forall>w0 file. func_open S w0 file = (Some a, w) \<and>
            (\<forall>k. k < dwStreams (fileinfo fp) \<longrightarrow> stream_type S (pfile fp) k \<noteq> Some streamtypeAUDIO) \<longrightarrow>
            flag fp AND FLAG_AUDIO = 0 \<and> func_read_audio S w (Some a) start len buf = Inl NullDeref"
  proof (intro allI impI, elim conjE)
    fix w0 path
    assume "func_open S w0 path = (Some a, w)"
      and "\<forall>k. k < dwStreams (fileinfo fp) \<longrightarrow> stream_type S (pfile fp) k \<noteq> Some streamtypeAUDIO"
    from func_open_no_audio [OF this(1) assms this(2)] nd
    show "flag fp AND FLAG_AUDIO = 0 \<and> func_read_audio S w (Some a) start len buf = Inl NullDeref"
      by simp
  qed
  have 6: "\<forall>w0 file. func_open S w0 file = (Some a, w) \<and>
            (\<forall>k. k < dwStreams (fileinfo fp) \<longrightarrow> stream_type S (pfile fp) k \<noteq> Some streamtypeVIDEO) \<longrightarrow>
            flag fp AND FLAG_VIDEO = 0 \<and>
            (\<exists>evs. trace_of (func_read_video S w (Some a) frame buf) =
               trace w @ EvAVIStreamRead None frame 1 None 0 # evs)"
  proof (intro allI impI, elim conjE)
    fix w0 path
    assume "func_open S w0 path = (Some a, w)"
      and "\<forall>k. k < dwStreams (fileinfo fp) \<longrightarrow> stream_type S (pfile fp) k \<noteq> Some streamtypeVIDEO"
    from func_open_no_video [OF this(1) assms this(2)] pv
    show "flag fp AND FLAG_VIDEO = 0 \<and>
            (\<exists>evs. trace_of (func_read_video S w (Some a) frame buf) =
               trace w @ EvAVIStreamRead None frame 1 None 0 # evs)"
      by simp
  qed
  have 2: "\<exists>evs. trace_of (func_read_video S w (Some a) frame buf) =
            trace w @ EvAVIStreamRead (pvideo fp) frame 1 None 0 # evs"
    using pv by simp
  have 3: "\<forall>f. returned (func_read_audio S (w\<lparr>sessions := (sessions w)(a \<mapsto> fp\<lparr>flag := f\<rparr>)\<rparr>)
                 (Some a) start len buf) = returned (func_read_audio S w (Some a) start len buf)"
    by (simp add: reads_ignore_flag(1) [OF assms])
  have 4: "\<forall>f. returned (func_read_video S (w\<lparr>sessions := (sessions w)(a \<mapsto> fp\<lparr>flag := f\<rparr>)\<rparr>)
                 (Some a) frame buf) = returned (func_read_video S w (Some a) frame buf)"
    by (simp add: reads_ignore_flag(2) [OF assms])
  have 7: "flag fp AND FLAG_AUDIO \<noteq> 0 \<and> (flag fp AND FLAG_AUDIO \<noteq> 0 \<longrightarrow> audioformat fp \<noteq> None) \<longrightarrow>
            func_read_audio S w (Some a) start len buf \<noteq> Inl NullDeref"
    using nd by simp
  show ?thesis
    by (intro conjI nd 2 3 4 7 5 6)
qed

theorem reads_do_not_validate_witness:
  "sessions video_only_world 100 = Some video_only_session \<and>
   func_open video_only world0 ''movie.avi'' = (Some 100, video_only_world) \<and>
   audioformat video_only_session = None \<and>
   flag video_only_session AND FLAG_AUDIO = 0 \<and>
   func_read_audio video_only video_only_world (Some 100) 0 100 (Some 500) = Inl NullDeref \<and>
   sessions audio_only_world 100 = Some audio_only_session \<and>
   func_open audio_only world0 ''movie.avi'' = (Some 100, audio_only_world) \<and>
   flag audio_only_session AND FLAG_VIDEO = 0 \<and>
   (\<exists>evs. trace_of (func_read_video audio_only audio_only_world (Some 100) 0 (Some 500)) =
      trace audio_only_world @ EvAVIStreamRead None 0 1 None 0 # evs) \<and>
   flag opened_session AND FLAG_AUDIO \<noteq> 0 \<and> audioformat opened_session \<noteq> None \<and>
   func_read_audio movie opened_world (Some 100) 0 100 (Some 500) \<noteq> Inl NullDeref"
proof -
  note tv = reads_do_not_validate [OF world_facts(6), where S = video_only and start = 0 and len = 100
      and buf = "Some 500" and frame = 0]
  note ta = reads_do_not_validate [OF world_facts(8), where S = audio_only and start = 0 and len = 100
      and buf = "Some 500" and frame = 0]
  note tm = reads_do_not_validate [OF opened_world_session, where S = movie and start = 0 and len = 100
      and buf = "Some 500" and frame = 0]
  have na: "\<forall>k. k < dwStreams (fileinfo video_only_session) \<longrightarrow>
      stream_type video_only (pfile video_only_session) k \<noteq> Some streamtypeAUDIO"
    by (simp add: stream_type_single streamtypes_differ)
  have nv: "\<forall>k. k < dwStreams (fileinfo audio_only_session) \<longrightarrow>
      stream_type audio_only (pfile audio_only_session) k \<noteq> Some streamtypeVIDEO"
    by (simp add: stream_type_single streamtypes_differ)
  from tv world_facts(5) na
  have 1: "flag video_only_session AND FLAG_AUDIO = 0 \<and>
      func_read_audio video_only video_only_world (Some 100) 0 100 (Some 500) = Inl NullDeref"
    by blast
  with tv have 2: "audioformat video_only_session = None"
    by blast
  from ta world_facts(7) nv
  have 3: "flag audio_only_session AND FLAG_VIDEO = 0 \<and>
      (\<exists>evs. trace_of (func_read_video audio_only audio_only_world (Some 100) 0 (Some 500)) =
         trace audio_only_world @ EvAVIStreamRead None 0 1 None 0 # evs)"
    by blast
  have 4: "flag opened_session AND FLAG_AUDIO \<noteq> 0 \<and> audioformat opened_session \<noteq> None"
    by (simp add: opened_session_def FLAG_AUDIO_def)
  with tm have 5: "func_read_audio movie opened_world (Some 100) 0 100 (Some 500) \<noteq> Inl NullDeref"
    by blast
  from 1 2 3 4 5 world_facts(5-8) show ?thesis
    by blast
qed

text \<open>
  The claim as first stated fails: an unset flag does not make the pointer null. After a
  failed allocation of the video format FLAG_VIDEO is unset and \<open>pvideo\<close> still holds the
  released handle 10, which \<open>func_read_video\<close> passes to the service.
\<close>

theorem read_video_unset_flag_counterexample:
  "sessions video_alloc_fails_world 100 = Some video_alloc_fails_session \<and>
   flag video_alloc_fails_session AND FLAG_VIDEO = 0 \<and>
   pvideo video_alloc_fails_session = Some 10 \<and>
   trace_of (func_read_video video_alloc_fails video_alloc_fails_world (Some 100) 0 (Some 500)) =
     trace video_alloc_fails_world @
       [EvAVIStreamRead (Some 10) 0 1 None 0, EvAVIStreamRead (Some 10) 0 1 (Some 500) 4]"
  by (simp add: world_facts video_alloc_fails_session_def FLAG_VIDEO_def trace_of_def
      func_read_video_def deref_def service_calls video_alloc_fails_def avi_service_def)

end
